theory Spec2Isabelle
  imports Main "HOL-Library.Char_ord" "HOL-Library.List_Lexorder" "HOL-Library.Multiset"
begin

section \<open>Time values\<close>

text \<open>
  Instants and wall-clock readings are counted in microseconds (the resolution of
  Python's \<open>datetime\<close>) from 1970-01-01T00:00. A \<open>datetime\<close> object is either naive
  (wall-clock fields only) or aware (wall-clock fields and the UTC offset of its zone).
  The zone configured in main.py:28 is Africa/Addis\_Ababa, whose offset is +03:00 with
  no daylight saving (for every date since 1960); the zone database is not part of the
  repository, so the offset is the constant \<open>ADDIS_ABABA_TZ\<close>.
\<close>

datatype pydatetime = Naive int | Aware int int

definition HOUR :: int where
  "HOUR = 3600000000"

definition DAY :: int where
  "DAY = 24 * HOUR"

definition ADDIS_ABABA_TZ :: int where
  "ADDIS_ABABA_TZ = 3 * HOUR"

fun wall :: "pydatetime \<Rightarrow> int" where
  "wall (Naive w) = w"
| "wall (Aware w off) = w"

text \<open>\<open>dt.date()\<close>: the calendar day of the wall-clock fields, as a day number.\<close>

definition date_of :: "pydatetime \<Rightarrow> int" where
  "date_of dt = wall dt div DAY"

text \<open>\<open>get_current_time\<close> (main.py:30-32); the argument is the clock's UTC instant.\<close>

definition get_current_time :: "int \<Rightarrow> pydatetime" where
  "get_current_time now_utc = Aware (now_utc + ADDIS_ABABA_TZ) ADDIS_ABABA_TZ"

text \<open>\<open>convert_to_utc\<close> (main.py:34-39): a naive value is read as local time.\<close>

fun convert_to_utc :: "pydatetime \<Rightarrow> pydatetime" where
  "convert_to_utc (Naive w) = Aware (w - ADDIS_ABABA_TZ) 0"
| "convert_to_utc (Aware w off) = Aware (w - off) 0"

text \<open>\<open>convert_from_utc\<close> (main.py:41-45): a naive value is read as UTC.\<close>

fun convert_from_utc :: "pydatetime \<Rightarrow> pydatetime" where
  "convert_from_utc (Naive w) = Aware (w + ADDIS_ABABA_TZ) ADDIS_ABABA_TZ"
| "convert_from_utc (Aware w off) = Aware (w - off + ADDIS_ABABA_TZ) ADDIS_ABABA_TZ"

text \<open>\<open>dt.replace(hour=h, minute=0, second=0, microsecond=0)\<close>: the zone is kept.\<close>

fun replace_hour :: "pydatetime \<Rightarrow> int \<Rightarrow> pydatetime" where
  "replace_hour (Naive w) h = Naive ((w div DAY) * DAY + h * HOUR)"
| "replace_hour (Aware w off) h = Aware ((w div DAY) * DAY + h * HOUR) off"

text \<open>\<open>dt + timedelta(days=n)\<close>.\<close>

fun plus_days :: "pydatetime \<Rightarrow> int \<Rightarrow> pydatetime" where
  "plus_days (Naive w) n = Naive (w + n * DAY)"
| "plus_days (Aware w off) n = Aware (w + n * DAY) off"

text \<open>\<open>dt.weekday()\<close>, Monday = 0; day number 0 (1970-01-01) was a Thursday.\<close>

definition weekday :: "pydatetime \<Rightarrow> int" where
  "weekday dt = (date_of dt + 3) mod 7"

text \<open>\<open>get_monday\<close> (main.py:70-73).\<close>

definition get_monday :: "pydatetime \<Rightarrow> pydatetime" where
  "get_monday date_in_tz =
     (let base = replace_hour date_in_tz 0
      in plus_days base (- weekday base))"

text \<open>\<open>day_range_in_tz\<close> (main.py:75-79): the working window 09:00-17:00, in UTC.\<close>

definition day_range_in_tz :: "pydatetime \<Rightarrow> pydatetime \<times> pydatetime" where
  "day_range_in_tz target_date =
     (let start = replace_hour target_date 9;
          end = replace_hour target_date 17
      in (convert_to_utc start, convert_to_utc end))"

text \<open>
  A \<open>DateTime\<close> column of the SQLite engine (main.py:22-23) keeps the wall-clock fields
  of the value it is given and hands back a naive \<open>datetime\<close>; main.py:703 tests for
  exactly that. Comparisons inside a query are on these stored fields.
\<close>

definition column_value :: "pydatetime \<Rightarrow> pydatetime" where
  "column_value dt = Naive (wall dt)"

section \<open>Entity store\<close>

text \<open>
  The rows of main.py:82-136. A nullable column that the code tests for \<open>None\<close> is an
  option. The \<open>start_time\<close>, \<open>end_time\<close> and \<open>created_at\<close> columns are only written
  and compared inside queries, so they hold the stored wall-clock reading directly.
  Every table is the list of its rows in insertion order, which is the order in which a
  query without \<open>ORDER BY\<close> scans them.
\<close>

record user =
  u_id :: int
  u_username :: string
  u_email :: string
  u_hashed_password :: string
  u_role :: string
  u_is_active :: "bool option"
  u_created_at :: int

record computer =
  c_id :: int
  c_name :: string
  c_status :: string
  c_current_user :: "string option"
  c_last_updated :: int

record student =
  s_id :: int
  s_name :: string
  s_email :: string
  s_student_id :: string
  s_user_id :: "int option"
  s_study :: "string option"
  s_department :: "string option"
  s_registered_at :: "pydatetime option"
  s_active :: "bool option"
  usage_days_total :: "int option"
  usage_days_remaining :: "int option"
  usage_last_decrement_at :: "pydatetime option"

record booking =
  b_id :: int
  b_computer_id :: int
  b_student_id :: int
  b_start_time :: int
  b_end_time :: int
  b_status :: string
  b_created_at :: int

record lab_db =
  users :: "user list"
  computers :: "computer list"
  students :: "student list"
  bookings :: "booking list"

text \<open>
  A handler either returns its response or raises; \<open>HTTPException\<close> carries the status
  code and the detail, \<open>IntegrityError\<close> is the storage layer's constraint violation
  where the handler does not catch it. Each handler returns the store as it leaves it.
\<close>

datatype failure = HTTPException int string | IntegrityError

text \<open>
  The id given to an inserted row: an integer primary key of SQLite is one more than the
  largest id in the table, and 1 in an empty table.
\<close>

fun max_id :: "int list \<Rightarrow> int" where
  "max_id [] = 0"
| "max_id [x] = x"
| "max_id (x # y # ys) = max x (max_id (y # ys))"

definition next_id :: "int list \<Rightarrow> int" where
  "next_id ids = (if ids = [] then 1 else max_id ids + 1)"

section \<open>Direct assignment and usage days\<close>

record AssignPayload =
  ap_computer_id :: int
  ap_student_id :: int

text \<open>The day comparison of main.py:699-705.\<close>

definition should_decrement :: "pydatetime \<Rightarrow> pydatetime option \<Rightarrow> bool" where
  "should_decrement now last_at =
     (case last_at of
        None \<Rightarrow> True
      | Some t \<Rightarrow>
          (let last = (case t of Naive w \<Rightarrow> convert_from_utc t | Aware w off \<Rightarrow> t)
           in date_of now > date_of last))"

text \<open>The usage update of main.py:697-711, on the student row.\<close>

definition decrement_usage :: "pydatetime \<Rightarrow> student \<Rightarrow> student" where
  "decrement_usage now s =
     (case usage_days_remaining s of
        None \<Rightarrow> s
      | Some r \<Rightarrow>
          if should_decrement now (usage_last_decrement_at s) \<and> r > 0
          then (let s1 = s\<lparr>usage_days_remaining := Some (r - 1),
                            usage_last_decrement_at := Some (column_value now)\<rparr>
                in if r - 1 \<le> 0 then s1\<lparr>s_active := Some False\<rparr> else s1)
          else s)"

text \<open>main.py:686-689: the linked user, when there is one, must be active.\<close>

definition linked_user_inactive :: "lab_db \<Rightarrow> student \<Rightarrow> bool" where
  "linked_user_inactive db s =
     (case s_user_id s of
        None \<Rightarrow> False
      | Some uid \<Rightarrow>
          if uid = 0 then False
          else (case find (\<lambda>u. u_id u = uid) (users db) of
                  None \<Rightarrow> False
                | Some u \<Rightarrow> u_is_active u \<noteq> Some True))"

definition update_student :: "student \<Rightarrow> student list \<Rightarrow> student list" where
  "update_student s' xs = map (\<lambda>x. if s_id x = s_id s' then s' else x) xs"

definition update_computer :: "computer \<Rightarrow> computer list \<Rightarrow> computer list" where
  "update_computer c' xs = map (\<lambda>x. if c_id x = c_id c' then c' else x) xs"

text \<open>\<open>admin_assign\<close> (main.py:675-716); the response is \<open>usage_days_remaining\<close>.\<close>

definition admin_assign ::
  "int \<Rightarrow> AssignPayload \<Rightarrow> lab_db \<Rightarrow> (failure + int option) \<times> lab_db" where
  "admin_assign now_utc payload db =
     (case (find (\<lambda>c. c_id c = ap_computer_id payload) (computers db),
            find (\<lambda>s. s_id s = ap_student_id payload) (students db)) of
        (Some computer, Some student) \<Rightarrow>
          if (case usage_days_remaining student of None \<Rightarrow> False | Some r \<Rightarrow> r \<le> 0)
          then (Inl (HTTPException 400 ''Student's usage days have expired''), db)
          else if linked_user_inactive db student
          then (Inl (HTTPException 400 ''Student is inactive and cannot be assigned''), db)
          else if s_active student = Some False
          then (Inl (HTTPException 400 ''Student is inactive and cannot be assigned''), db)
          else if c_status computer = ''in_use''
          then (Inl (HTTPException 400 ''Computer already in use''), db)
          else
            (let now = get_current_time now_utc;
                 student' = decrement_usage now student;
                 computer' = computer\<lparr>c_status := ''in_use'',
                                       c_current_user := Some (s_name student),
                                       c_last_updated := wall now\<rparr>
             in (Inr (usage_days_remaining student'),
                 db\<lparr>students := update_student student' (students db),
                    computers := update_computer computer' (computers db)\<rparr>))
      | _ \<Rightarrow> (Inl (HTTPException 404 ''Computer or Student not found''), db))"

text \<open>\<open>update_student_usage\<close> (main.py:859-885); the response is the two counters.\<close>

definition update_student_usage ::
  "int \<Rightarrow> int \<Rightarrow> lab_db \<Rightarrow> (failure + int option \<times> int option) \<times> lab_db" where
  "update_student_usage student_id days db =
     (case find (\<lambda>s. s_id s = student_id) (students db) of
        None \<Rightarrow> (Inl (HTTPException 404 ''Student not found''), db)
      | Some student \<Rightarrow>
          if days = 0
          then (Inr (usage_days_total student, usage_days_remaining student), db)
          else
            (let total0 = (case usage_days_total student of None \<Rightarrow> 0 | Some t \<Rightarrow> t);
                 remaining0 = (case usage_days_remaining student of None \<Rightarrow> 0 | Some r \<Rightarrow> r);
                 total1 = max 0 (total0 + days);
                 remaining1 = max 0 (remaining0 + days);
                 s1 = student\<lparr>usage_days_total := Some total1,
                              usage_days_remaining := Some remaining1\<rparr>;
                 s2 = (if remaining1 > 0 then s1\<lparr>s_active := Some True\<rparr> else s1)
             in (Inr (Some total1, Some remaining1),
                 db\<lparr>students := update_student s2 (students db)\<rparr>)))"

section \<open>Bookings\<close>

text \<open>\<open>Booking.status.in_(["scheduled", "active"])\<close>.\<close>

definition status_open :: "booking \<Rightarrow> bool" where
  "status_open b = (b_status b = ''scheduled'' \<or> b_status b = ''active'')"

text \<open>
  The computer-level conflict filter of main.py:648-653 and main.py:1075-1080:
  \<open>start_time < end\<close> and \<open>end_time > start\<close>.
\<close>

definition conflicts :: "int \<Rightarrow> int \<Rightarrow> int \<Rightarrow> booking \<Rightarrow> bool" where
  "conflicts cid start_utc end_utc b =
     (b_computer_id b = cid \<and> b_start_time b < end_utc \<and> b_end_time b > start_utc
      \<and> status_open b)"

text \<open>
  The per-student lookup filter of main.py:583-588 and main.py:630-635:
  \<open>start_time <= end\<close> and \<open>end_time >= start\<close>.
\<close>

definition on_day :: "int \<Rightarrow> int \<Rightarrow> int \<Rightarrow> booking \<Rightarrow> bool" where
  "on_day sid start_utc end_utc b =
     (b_student_id b = sid \<and> b_start_time b \<le> end_utc \<and> b_end_time b \<ge> start_utc
      \<and> status_open b)"

text \<open>\<open>db.add(Booking(...)); db.commit()\<close>: the default status and creation time.\<close>

definition new_booking :: "int \<Rightarrow> lab_db \<Rightarrow> int \<Rightarrow> int \<Rightarrow> int \<Rightarrow> int \<Rightarrow> booking" where
  "new_booking now_utc db cid sid start_utc end_utc =
     \<lparr>b_id = next_id (map b_id (bookings db)),
      b_computer_id = cid, b_student_id = sid,
      b_start_time = start_utc, b_end_time = end_utc,
      b_status = ''scheduled'',
      b_created_at = wall (get_current_time now_utc)\<rparr>"

record ToggleDayPayload =
  tp_student_id :: int
  tp_date :: string
  tp_computer_id :: "int option"

datatype toggle_response = Removed | Added int

text \<open>
  \<open>toggle_day_booking\<close> (main.py:618-668). \<open>parse_date\<close> stands for the library calls
  of main.py:622-623 (\<open>split\<close>, \<open>int\<close>, \<open>datetime(year, month, day)\<close>): it gives the day
  number of the date, or \<open>None\<close> where any of them raises.
\<close>

definition toggle_day_booking ::
  "(string \<Rightarrow> int option) \<Rightarrow> int \<Rightarrow> ToggleDayPayload \<Rightarrow> lab_db
     \<Rightarrow> (failure + toggle_response) \<times> lab_db" where
  "toggle_day_booking parse_date now_utc payload db =
     (case parse_date (tp_date payload) of
        None \<Rightarrow> (Inl (HTTPException 400 ''Invalid date format''), db)
      | Some d \<Rightarrow>
          (let local_date = Aware (d * DAY) ADDIS_ABABA_TZ;
               start_utc = wall (fst (day_range_in_tz local_date));
               end_utc = wall (snd (day_range_in_tz local_date))
           in case find (on_day (tp_student_id payload) start_utc end_utc) (bookings db) of
                Some existing \<Rightarrow>
                  (Inr Removed,
                   db\<lparr>bookings := filter (\<lambda>b. b_id b \<noteq> b_id existing) (bookings db)\<rparr>)
              | None \<Rightarrow>
                  (case tp_computer_id payload of
                     None \<Rightarrow>
                       (Inl (HTTPException 400 ''computer_id required to add booking''), db)
                   | Some cid \<Rightarrow>
                       if cid = 0
                       then (Inl (HTTPException 400 ''computer_id required to add booking''),
                             db)
                       else if length (filter (conflicts cid start_utc end_utc) (bookings db))
                                 \<noteq> 0
                       then (Inl (HTTPException 400
                                    ''Computer not available for selected day''), db)
                       else
                         (let db_booking = new_booking now_utc db cid
                                             (tp_student_id payload) start_utc end_utc
                          in (Inr (Added (b_id db_booking)),
                              db\<lparr>bookings := bookings db @ [db_booking]\<rparr>)))))"

subsection \<open>Weekly schedule\<close>

record day_cell =
  dc_date :: int
  has_booking :: bool
  booking_id :: "int option"
  computer_id :: "int option"

record schedule_row =
  row_student_id :: int
  row_student_name :: string
  row_days :: "day_cell list"

record week_schedule =
  week_start :: int
  week_end :: int
  ws_days :: "int list"
  ws_computers :: "(int \<times> string) list"
  ws_rows :: "schedule_row list"

text \<open>\<open>.order_by(Booking.start_time.asc()).first()\<close>.\<close>

definition first_by_start :: "booking list \<Rightarrow> booking option" where
  "first_by_start bs =
     (case sort_key b_start_time bs of [] \<Rightarrow> None | b # _ \<Rightarrow> Some b)"

text \<open>The cell of one student and one day (main.py:582-602).\<close>

definition schedule_cell :: "lab_db \<Rightarrow> student \<Rightarrow> pydatetime \<Rightarrow> day_cell" where
  "schedule_cell db st d =
     (let start_utc = wall (fst (day_range_in_tz d));
          end_utc = wall (snd (day_range_in_tz d))
      in case first_by_start (filter (on_day (s_id st) start_utc end_utc) (bookings db)) of
           Some b \<Rightarrow> \<lparr>dc_date = date_of d, has_booking = True,
                      booking_id = Some (b_id b), computer_id = Some (b_computer_id b)\<rparr>
         | None \<Rightarrow> \<lparr>dc_date = date_of d, has_booking = False,
                    booking_id = None, computer_id = None\<rparr>)"

text \<open>
  \<open>get_week_schedule\<close> (main.py:569-611). The handler only queries, so it is a function
  of the store alone. Dates stand for their ISO text and weekday numbers for their names.
\<close>

definition get_week_schedule :: "int \<Rightarrow> lab_db \<Rightarrow> week_schedule" where
  "get_week_schedule now_utc db =
     (let today = get_current_time now_utc;
          monday = get_monday today;
          days = map (\<lambda>i. plus_days monday i) [0, 1, 2, 3, 4];
          students_sorted = sort_key s_name (students db);
          computers_sorted = sort_key c_name (computers db)
      in \<lparr>week_start = date_of (hd days),
          week_end = date_of (last days),
          ws_days = map weekday days,
          ws_computers = map (\<lambda>c. (c_id c, c_name c)) computers_sorted,
          ws_rows = map (\<lambda>st. \<lparr>row_student_id = s_id st, row_student_name = s_name st,
                                 row_days = map (schedule_cell db st) days\<rparr>)
                        students_sorted\<rparr>)"

subsection \<open>Student self-service booking\<close>

record StudentBookingCreate =
  sb_computer_id :: int
  sb_start_time :: string
  sb_end_time :: string

text \<open>The decimal text of a number, and Python's format \<open>03d\<close> (main.py:1050).\<close>

fun digits :: "nat \<Rightarrow> string" where
  "digits n =
     (if n < 10 then [char_of (48 + n)]
      else digits (n div 10) @ [char_of (48 + n mod 10)])"

definition zero_pad :: "nat \<Rightarrow> string \<Rightarrow> string" where
  "zero_pad width s = replicate (width - length s) (CHR ''0'') @ s"

definition format_03d :: "int \<Rightarrow> string" where
  "format_03d i =
     (if i < 0 then ''-'' @ zero_pad 2 (digits (nat (- i)))
      else zero_pad 3 (digits (nat i)))"

text \<open>
  An insert into \<open>students\<close>: the unique indexes on \<open>email\<close> and \<open>student_id\<close>
  (main.py:109-110) make the commit raise \<open>IntegrityError\<close>, here \<open>None\<close>.
\<close>

definition insert_student :: "student \<Rightarrow> student list \<Rightarrow> (student \<times> student list) option" where
  "insert_student row rows =
     (if list_ex (\<lambda>r. s_email r = s_email row \<or> s_student_id r = s_student_id row) rows
      then None
      else (let row' = row\<lparr>s_id := next_id (map s_id rows)\<rparr>
            in Some (row', rows @ [row'])))"

text \<open>main.py:1044-1055: the student of the caller, created when there is none.\<close>

definition get_or_create_student :: "user \<Rightarrow> lab_db \<Rightarrow> (student \<times> lab_db) option" where
  "get_or_create_student current_user db =
     (case find (\<lambda>s. s_user_id s = Some (u_id current_user)) (students db) of
        Some student \<Rightarrow> Some (student, db)
      | None \<Rightarrow>
          (case insert_student
                  \<lparr>s_id = 0, s_name = u_username current_user,
                   s_email = u_email current_user,
                   s_student_id = ''STU'' @ format_03d (u_id current_user),
                   s_user_id = Some (u_id current_user),
                   s_study = None, s_department = None, s_registered_at = None,
                   s_active = Some True, usage_days_total = None,
                   usage_days_remaining = None, usage_last_decrement_at = None\<rparr>
                  (students db) of
             None \<Rightarrow> None
           | Some (student, rows) \<Rightarrow> Some (student, db\<lparr>students := rows\<rparr>)))"

text \<open>\<open>s.replace('Z', '+00:00')\<close>.\<close>

definition replace_Z :: "string \<Rightarrow> string" where
  "replace_Z s = concat (map (\<lambda>c. if c = CHR ''Z'' then ''+00:00'' else [c]) s)"

text \<open>
  main.py:1058-1068. \<open>strptime\<close> stands for \<open>datetime.strptime(_, '%Y-%m-%dT%H:%M')\<close>
  and \<open>fromisoformat\<close> for \<open>datetime.fromisoformat\<close>; \<open>Inl\<close> is the message of the
  \<open>ValueError\<close> they raise. The format of \<open>start_time\<close> alone selects the parser.
\<close>

definition parse_times ::
  "(string \<Rightarrow> string + pydatetime) \<Rightarrow> (string \<Rightarrow> string + pydatetime)
     \<Rightarrow> StudentBookingCreate \<Rightarrow> string + pydatetime \<times> pydatetime" where
  "parse_times strptime fromisoformat booking =
     (if CHR ''T'' \<in> set (sb_start_time booking) \<and> length (sb_start_time booking) = 16
      then (case strptime (sb_start_time booking) of
              Inl e \<Rightarrow> Inl e
            | Inr start_time \<Rightarrow>
                (case strptime (sb_end_time booking) of
                   Inl e \<Rightarrow> Inl e
                 | Inr end_time \<Rightarrow> Inr (start_time, end_time)))
      else (case fromisoformat (replace_Z (sb_start_time booking)) of
              Inl e \<Rightarrow> Inl e
            | Inr start_time \<Rightarrow>
                (case fromisoformat (replace_Z (sb_end_time booking)) of
                   Inl e \<Rightarrow> Inl e
                 | Inr end_time \<Rightarrow> Inr (start_time, end_time))))"

text \<open>\<open>create_booking_student\<close> (main.py:1041-1094).\<close>

definition create_booking_student ::
  "(string \<Rightarrow> string + pydatetime) \<Rightarrow> (string \<Rightarrow> string + pydatetime) \<Rightarrow> int
     \<Rightarrow> StudentBookingCreate \<Rightarrow> user \<Rightarrow> lab_db \<Rightarrow> (failure + booking) \<times> lab_db" where
  "create_booking_student strptime fromisoformat now_utc booking current_user db =
     (case get_or_create_student current_user db of
        None \<Rightarrow> (Inl IntegrityError, db)
      | Some (student, db1) \<Rightarrow>
          (case parse_times strptime fromisoformat booking of
             Inl e \<Rightarrow> (Inl (HTTPException 400 (''Invalid datetime format: '' @ e)), db1)
           | Inr (start_time, end_time) \<Rightarrow>
               (let start_time_utc = wall (convert_to_utc start_time);
                    end_time_utc = wall (convert_to_utc end_time);
                    conflicting_bookings =
                      length (filter (conflicts (sb_computer_id booking)
                                        start_time_utc end_time_utc) (bookings db1))
                in if conflicting_bookings > 0
                   then (Inl (HTTPException 400
                                ''Computer is not available for the requested time slot''),
                         db1)
                   else
                     (let db_booking = new_booking now_utc db1 (sb_computer_id booking)
                                         (s_id student) start_time_utc end_time_utc
                      in (Inr db_booking,
                          db1\<lparr>bookings := bookings db1 @ [db_booking]\<rparr>)))))"

section \<open>Student creation\<close>

record StudentCreate =
  sc_name :: string
  sc_email :: string
  sc_student_id :: string
  sc_study :: "string option"
  sc_department :: "string option"
  sc_date :: "string option"
  sc_usage_days :: "int option"

text \<open>
  Text is a list of bytes. Case mapping is that of the ASCII letters, which is all
  that SQLite's \<open>lower\<close> maps; \<open>str.lower\<close> is taken on ASCII text as well.
  \<open>str.strip\<close> removes the ASCII white space characters, SQLite's \<open>trim\<close> only blanks.
\<close>

definition ascii_lower :: "char \<Rightarrow> char" where
  "ascii_lower c =
     (case map_of (zip ''ABCDEFGHIJKLMNOPQRSTUVWXYZ'' ''abcdefghijklmnopqrstuvwxyz'') c of
        None \<Rightarrow> c
      | Some l \<Rightarrow> l)"

definition py_isspace :: "char \<Rightarrow> bool" where
  "py_isspace c =
     (c \<in> set [CHR 0x09, CHR 0x0A, CHR 0x0B, CHR 0x0C, CHR 0x0D,
               CHR 0x1C, CHR 0x1D, CHR 0x1E, CHR 0x1F, CHR '' ''])"

definition py_strip :: "string \<Rightarrow> string" where
  "py_strip s = rev (dropWhile py_isspace (rev (dropWhile py_isspace s)))"

definition py_lower :: "string \<Rightarrow> string" where
  "py_lower s = map ascii_lower s"

definition sql_trim :: "string \<Rightarrow> string" where
  "sql_trim s =
     rev (dropWhile (\<lambda>c. c = CHR '' '') (rev (dropWhile (\<lambda>c. c = CHR '' '') s)))"

definition sql_lower :: "string \<Rightarrow> string" where
  "sql_lower s = map ascii_lower s"

text \<open>The duplicate query of main.py:437-439.\<close>

definition is_dup :: "string \<Rightarrow> string \<Rightarrow> student \<Rightarrow> bool" where
  "is_dup sid email s =
     (sql_lower (sql_trim (s_student_id s)) = sid \<or> sql_lower (sql_trim (s_email s)) = email)"

text \<open>The registration date of main.py:423-433; a failed parse leaves it unset.\<close>

definition parse_reg_at ::
  "(string \<Rightarrow> int option) \<Rightarrow> (string \<Rightarrow> string + pydatetime) \<Rightarrow> string option
     \<Rightarrow> pydatetime option" where
  "parse_reg_at parse_date fromisoformat date =
     (case date of
        None \<Rightarrow> None
      | Some ds \<Rightarrow>
          if ds = [] then None
          else if length ds = 10
          then (case parse_date ds of
                  None \<Rightarrow> None
                | Some d \<Rightarrow> Some (Aware (d * DAY) ADDIS_ABABA_TZ))
          else (case fromisoformat ds of Inl e \<Rightarrow> None | Inr dt \<Rightarrow> Some dt))"

text \<open>
  \<open>create_student_admin\<close> (main.py:420-468). \<open>others\<close> is what concurrent requests
  commit between this handler's duplicate query and its insert; it is the identity when
  the handler runs alone.
\<close>

definition create_student_admin ::
  "(string \<Rightarrow> int option) \<Rightarrow> (string \<Rightarrow> string + pydatetime) \<Rightarrow> (lab_db \<Rightarrow> lab_db)
     \<Rightarrow> StudentCreate \<Rightarrow> lab_db \<Rightarrow> (failure + student) \<times> lab_db" where
  "create_student_admin parse_date fromisoformat others payload db =
     (let reg_at = parse_reg_at parse_date fromisoformat (sc_date payload);
          sid = py_lower (py_strip (sc_student_id payload));
          email = py_lower (py_strip (sc_email payload))
      in case find (is_dup sid email) (students db) of
           Some dup \<Rightarrow>
             (let detail =
                    (if s_student_id dup = sid \<and> s_email dup = email
                     then ''Student ID and email already exist''
                     else if s_student_id dup = sid then ''Student ID already exists''
                     else if s_email dup = email then ''Email already exists''
                     else ''Duplicate student'')
              in (Inl (HTTPException 409 detail), db))
         | None \<Rightarrow>
             (let usage = (case sc_usage_days payload of
                             None \<Rightarrow> None
                           | Some n \<Rightarrow> if n \<noteq> 0 \<and> n > 0 then Some n else None);
                  db_student =
                    \<lparr>s_id = 0, s_name = sc_name payload, s_email = email,
                     s_student_id = sid, s_user_id = None,
                     s_study = sc_study payload, s_department = sc_department payload,
                     s_registered_at = map_option column_value reg_at,
                     s_active = Some True, usage_days_total = usage,
                     usage_days_remaining = usage, usage_last_decrement_at = None\<rparr>;
                  db1 = others db
              in case insert_student db_student (students db1) of
                   None \<Rightarrow>
                     (Inl (HTTPException 409 ''Student ID or email already exists''), db1)
                 | Some (row, rows) \<Rightarrow> (Inr row, db1\<lparr>students := rows\<rparr>)))"

section \<open>Example store\<close>

text \<open>
  A small store used to run the handlers: one user, two computers, one student with one
  usage day left. Day number 19786 is Monday 2024-03-04.
\<close>

definition demo_user :: user where
  "demo_user = \<lparr>u_id = 2, u_username = ''abebe'', u_email = ''abebe@example.com'',
                 u_hashed_password = ''x'', u_role = ''student'',
                 u_is_active = Some True, u_created_at = 0\<rparr>"

definition demo_student :: student where
  "demo_student = \<lparr>s_id = 5, s_name = ''Abebe'', s_email = ''abebe@example.com'',
                    s_student_id = ''stu005'', s_user_id = Some 2,
                    s_study = None, s_department = None, s_registered_at = None,
                    s_active = Some True, usage_days_total = Some 3,
                    usage_days_remaining = Some 1, usage_last_decrement_at = None\<rparr>"

definition pc1 :: computer where
  "pc1 = \<lparr>c_id = 1, c_name = ''PC-01'', c_status = ''available'',
           c_current_user = None, c_last_updated = 0\<rparr>"

definition pc2 :: computer where
  "pc2 = \<lparr>c_id = 2, c_name = ''PC-02'', c_status = ''available'',
           c_current_user = None, c_last_updated = 0\<rparr>"

definition demo_db :: lab_db where
  "demo_db = \<lparr>users = [demo_user], computers = [pc1, pc2],
               students = [demo_student], bookings = []\<rparr>"

text \<open>Monday 2024-03-04, 10:00 and 15:30 local time, as UTC instants.\<close>

definition demo_now :: int where
  "demo_now = 19786 * DAY + 7 * HOUR"

definition demo_later :: int where
  "demo_later = 19786 * DAY + 12 * HOUR + HOUR div 2"

definition demo_assign :: AssignPayload where
  "demo_assign = \<lparr>ap_computer_id = 1, ap_student_id = 5\<rparr>"

text \<open>The linked user deactivated; and a walk-in student whose own flag is off.\<close>

definition demo_db_user_off :: lab_db where
  "demo_db_user_off = demo_db\<lparr>users := [demo_user\<lparr>u_is_active := Some False\<rparr>]\<rparr>"

definition demo_db_flag_off :: lab_db where
  "demo_db_flag_off =
     demo_db\<lparr>students := [demo_student\<lparr>s_user_id := None, s_active := Some False\<rparr>]\<rparr>"

text \<open>
  Stand-ins for the library parsers, defined on the inputs used below; and a store in
  which computer 1 is booked on 2024-03-04 from 10:00 to 11:00 local time.
\<close>

definition demo_strptime :: "string \<Rightarrow> string + pydatetime" where
  "demo_strptime s =
     (case map_of [(''2024-03-04T10:00'', 19786 * DAY + 10 * HOUR),
                   (''2024-03-04T10:30'', 19786 * DAY + 10 * HOUR + HOUR div 2),
                   (''2024-03-04T11:00'', 19786 * DAY + 11 * HOUR),
                   (''2024-03-04T11:30'', 19786 * DAY + 11 * HOUR + HOUR div 2),
                   (''2024-03-04T12:00'', 19786 * DAY + 12 * HOUR)] s of
        None \<Rightarrow> Inl ''time data does not match format''
      | Some w \<Rightarrow> Inr (Naive w))"

definition demo_fromisoformat :: "string \<Rightarrow> string + pydatetime" where
  "demo_fromisoformat s = Inl ''Invalid isoformat string''"

definition demo_parse_date :: "string \<Rightarrow> int option" where
  "demo_parse_date s = (if s = ''2024-03-04'' then Some 19786 else None)"

definition demo_booked :: booking where
  "demo_booked = \<lparr>b_id = 1, b_computer_id = 1, b_student_id = 5,
                   b_start_time = 19786 * DAY + 7 * HOUR,
                   b_end_time = 19786 * DAY + 8 * HOUR,
                   b_status = ''scheduled'', b_created_at = 0\<rparr>"

definition demo_db_booked :: lab_db where
  "demo_db_booked = demo_db\<lparr>bookings := [demo_booked]\<rparr>"

definition bk_overlap :: StudentBookingCreate where
  "bk_overlap = \<lparr>sb_computer_id = 1, sb_start_time = ''2024-03-04T10:30'',
                  sb_end_time = ''2024-03-04T11:30''\<rparr>"

definition bk_after :: StudentBookingCreate where
  "bk_after = \<lparr>sb_computer_id = 1, sb_start_time = ''2024-03-04T11:00'',
                sb_end_time = ''2024-03-04T12:00''\<rparr>"

definition bk_bad :: StudentBookingCreate where
  "bk_bad = \<lparr>sb_computer_id = 1, sb_start_time = ''tomorrow'', sb_end_time = ''later''\<rparr>"

text \<open>The same store with the user deactivated, the student inactive and no days left.\<close>

definition demo_user_off :: user where
  "demo_user_off = demo_user\<lparr>u_is_active := Some False\<rparr>"

definition demo_student_off :: student where
  "demo_student_off = demo_student\<lparr>s_active := Some False, usage_days_remaining := Some 0\<rparr>"

definition demo_db_off :: lab_db where
  "demo_db_off = \<lparr>users = [demo_user_off], computers = [pc1, pc2],
                   students = [demo_student_off], bookings = [demo_booked]\<rparr>"

text \<open>
  Toggle requests for Monday 2024-03-04, and stores in which the student already has a
  booking: on Tuesday from 10:00 to 11:00, on Monday from 08:00 to 09:00 (ending when the
  working window opens), and on Monday from 17:00 to 18:00 (starting when it closes).
\<close>

definition tg_zero :: ToggleDayPayload where
  "tg_zero = \<lparr>tp_student_id = 5, tp_date = ''2024-03-04'', tp_computer_id = Some 0\<rparr>"

definition tg_pc2 :: ToggleDayPayload where
  "tg_pc2 = \<lparr>tp_student_id = 5, tp_date = ''2024-03-04'', tp_computer_id = Some 2\<rparr>"

definition demo_tuesday :: booking where
  "demo_tuesday = \<lparr>b_id = 1, b_computer_id = 1, b_student_id = 5,
                    b_start_time = 19787 * DAY + 7 * HOUR,
                    b_end_time = 19787 * DAY + 8 * HOUR,
                    b_status = ''scheduled'', b_created_at = 0\<rparr>"

definition demo_early :: booking where
  "demo_early = \<lparr>b_id = 1, b_computer_id = 1, b_student_id = 5,
                  b_start_time = 19786 * DAY + 5 * HOUR,
                  b_end_time = 19786 * DAY + 6 * HOUR,
                  b_status = ''scheduled'', b_created_at = 0\<rparr>"

definition demo_late :: booking where
  "demo_late = \<lparr>b_id = 1, b_computer_id = 1, b_student_id = 5,
                 b_start_time = 19786 * DAY + 14 * HOUR,
                 b_end_time = 19786 * DAY + 15 * HOUR,
                 b_status = ''scheduled'', b_created_at = 0\<rparr>"

definition demo_db_tuesday :: lab_db where
  "demo_db_tuesday = demo_db\<lparr>bookings := [demo_tuesday]\<rparr>"

definition demo_db_early :: lab_db where
  "demo_db_early = demo_db\<lparr>bookings := [demo_early]\<rparr>"

definition demo_db_late :: lab_db where
  "demo_db_late = demo_db\<lparr>bookings := [demo_late]\<rparr>"

text \<open>
  Student creation requests: the same student in two spellings, and a new student whose
  e-mail address a concurrent request commits first.
\<close>

definition sc_first :: StudentCreate where
  "sc_first = \<lparr>sc_name = ''Test Student'', sc_email = ''X@Y.com'',
                sc_student_id = ''DuP123'', sc_study = None, sc_department = None,
                sc_date = None, sc_usage_days = None\<rparr>"

definition sc_second :: StudentCreate where
  "sc_second = \<lparr>sc_name = ''Test Student'', sc_email = '' x@y.com'',
                 sc_student_id = ''dup123 '', sc_study = None, sc_department = None,
                 sc_date = None, sc_usage_days = None\<rparr>"

definition sc_other :: StudentCreate where
  "sc_other = \<lparr>sc_name = ''Other'', sc_email = ''new@z.org'',
                sc_student_id = ''abc999'', sc_study = None, sc_department = None,
                sc_date = None, sc_usage_days = None\<rparr>"

definition demo_created :: student where
  "demo_created = \<lparr>s_id = 6, s_name = ''Test Student'', s_email = ''x@y.com'',
                    s_student_id = ''dup123'', s_user_id = None,
                    s_study = None, s_department = None, s_registered_at = None,
                    s_active = Some True, usage_days_total = None,
                    usage_days_remaining = None, usage_last_decrement_at = None\<rparr>"

definition racing_writer :: "lab_db \<Rightarrow> lab_db" where
  "racing_writer db =
     db\<lparr>students := students db @ [demo_created\<lparr>s_id := 7, s_email := ''new@z.org'',
                                                  s_student_id := ''zzz000''\<rparr>]\<rparr>"

text \<open>
  A student with four usage days left, and two calls: Monday 2024-03-04 at 22:00 and
  Tuesday 2024-03-05 at 10:00 local time, the second for computer 2.
\<close>

definition demo_student4 :: student where
  "demo_student4 = demo_student\<lparr>usage_days_total := Some 5, usage_days_remaining := Some 4\<rparr>"

definition demo_db4 :: lab_db where
  "demo_db4 = demo_db\<lparr>students := [demo_student4]\<rparr>"

definition monday_night :: int where
  "monday_night = 19786 * DAY + 19 * HOUR"

definition tuesday_morning :: int where
  "tuesday_morning = 19787 * DAY + 7 * HOUR"

definition demo_assign2 :: AssignPayload where
  "demo_assign2 = \<lparr>ap_computer_id = 2, ap_student_id = 5\<rparr>"

section \<open>Properties\<close>

subsection \<open>Row lookup after an update\<close>

lemma find_s_id: "find (\<lambda>s. s_id s = i) xs = Some st \<Longrightarrow> s_id st = i"
  by (induction xs) (auto split: if_splits)

lemma find_update_student:
  "find (\<lambda>s. s_id s = i) xs = Some st \<Longrightarrow> s_id st' = i \<Longrightarrow>
   find (\<lambda>s. s_id s = i) (update_student st' xs) = Some st'"
  by (induction xs) (auto simp: update_student_def)

subsection \<open>Usage-day adjustment\<close>

text \<open>
  C8. For a student that exists, an adjustment by a non-zero number of days sets both
  counters to the old value (0 when unset) plus the delta, clamped at 0, stores them in
  the student's row and answers with them; the active flag becomes true when the new
  remaining count is positive and is left alone otherwise. A delta of 0 answers with
  the counters as they are and leaves the store unchanged.
\<close>

theorem update_student_usage_clamps:
  assumes found: "find (\<lambda>s. s_id s = sid) (students db) = Some st"
  shows "(days \<noteq> 0 \<longrightarrow>
           (\<exists>st'. update_student_usage sid days db =
                (Inr (usage_days_total st', usage_days_remaining st'),
                 db\<lparr>students := update_student st' (students db)\<rparr>)
              \<and> find (\<lambda>s. s_id s = sid) (update_student st' (students db)) = Some st'
              \<and> usage_days_total st' =
                  Some (max 0 ((case usage_days_total st of None \<Rightarrow> 0 | Some t \<Rightarrow> t) + days))
              \<and> usage_days_remaining st' =
                  Some (max 0 ((case usage_days_remaining st of None \<Rightarrow> 0 | Some r \<Rightarrow> r)
                               + days))
              \<and> (case usage_days_remaining st' of None \<Rightarrow> False
                  | Some r' \<Rightarrow> 0 \<le> r' \<and> s_active st' = (if r' > 0 then Some True
                                                        else s_active st))))
       \<and> update_student_usage sid 0 db =
             (Inr (usage_days_total st, usage_days_remaining st), db)"
proof (intro conjI impI)
  have sid: "s_id st = sid" using found by (rule find_s_id)
  show "update_student_usage sid 0 db =
          (Inr (usage_days_total st, usage_days_remaining st), db)"
    using found by (simp add: update_student_usage_def)
  assume nz: "days \<noteq> 0"
  define total1 where
    "total1 = max 0 ((case usage_days_total st of None \<Rightarrow> 0 | Some t \<Rightarrow> t) + days)"
  define remaining1 where
    "remaining1 = max 0 ((case usage_days_remaining st of None \<Rightarrow> 0 | Some r \<Rightarrow> r) + days)"
  define s1 where
    "s1 = st\<lparr>usage_days_total := Some total1, usage_days_remaining := Some remaining1\<rparr>"
  define s2 where "s2 = (if remaining1 > 0 then s1\<lparr>s_active := Some True\<rparr> else s1)"
  have run: "update_student_usage sid days db =
               (Inr (Some total1, Some remaining1),
                db\<lparr>students := update_student s2 (students db)\<rparr>)"
    using found nz
    by (simp add: update_student_usage_def Let_def total1_def remaining1_def s1_def s2_def)
  have id2: "s_id s2 = sid" using sid by (simp add: s2_def s1_def)
  have fields: "usage_days_total s2 = Some total1" "usage_days_remaining s2 = Some remaining1"
    by (simp_all add: s2_def s1_def)
  have act: "s_active s2 = (if remaining1 > 0 then Some True else s_active st)"
    by (simp add: s2_def s1_def)
  have nonneg: "0 \<le> remaining1" by (simp add: remaining1_def)
  have look: "find (\<lambda>s. s_id s = sid) (update_student s2 (students db)) = Some s2"
    using found id2 by (rule find_update_student)
  show "\<exists>st'. update_student_usage sid days db =
                (Inr (usage_days_total st', usage_days_remaining st'),
                 db\<lparr>students := update_student st' (students db)\<rparr>)
              \<and> find (\<lambda>s. s_id s = sid) (update_student st' (students db)) = Some st'
              \<and> usage_days_total st' =
                  Some (max 0 ((case usage_days_total st of None \<Rightarrow> 0 | Some t \<Rightarrow> t) + days))
              \<and> usage_days_remaining st' =
                  Some (max 0 ((case usage_days_remaining st of None \<Rightarrow> 0 | Some r \<Rightarrow> r)
                               + days))
              \<and> (case usage_days_remaining st' of None \<Rightarrow> False
                  | Some r' \<Rightarrow> 0 \<le> r' \<and> s_active st' = (if r' > 0 then Some True
                                                        else s_active st))"
    apply (rule exI [of _ s2])
    using run look fields act nonneg
    by (simp add: total1_def remaining1_def)
qed

theorem update_student_usage_clamps_witness:
  "find (\<lambda>s. s_id s = 5) (students demo_db) = Some demo_student
   \<and> fst (update_student_usage 5 (- 4) demo_db) = Inr (Some 0, Some 0)
   \<and> fst (update_student_usage 5 2 demo_db) = Inr (Some 5, Some 3)
   \<and> update_student_usage 5 0 demo_db = (Inr (Some 3, Some 1), demo_db)"
proof -
  have f: "find (\<lambda>s. s_id s = 5) (students demo_db) = Some demo_student"
    by (simp add: demo_db_def demo_student_def)
  have "usage_days_total demo_student = Some 3" "usage_days_remaining demo_student = Some 1"
    by (simp_all add: demo_student_def)
  with f update_student_usage_clamps [OF f, of "- 4"] update_student_usage_clamps [OF f, of 2]
  show ?thesis
    by auto
qed

subsection \<open>Direct assignment\<close>

lemma find_c_id: "find (\<lambda>c. c_id c = i) xs = Some c \<Longrightarrow> c_id c = i"
  by (induction xs) (auto split: if_splits)

lemma find_update_computer:
  "find (\<lambda>c. c_id c = i) xs = Some c \<Longrightarrow> c_id c' = i \<Longrightarrow>
   find (\<lambda>c. c_id c = i) (update_computer c' xs) = Some c'"
  by (induction xs) (auto simp: update_computer_def)

lemma c_id_update_computer: "map c_id (update_computer c' xs) = map c_id xs"
  by (induction xs) (auto simp: update_computer_def)

lemma find_None_ids: "(find (\<lambda>c. f c = i) xs = None) = (i \<notin> set (map f xs))"
  by (induction xs) auto

lemma find_computer_kept:
  "(find (\<lambda>c. c_id c = i) (update_computer c' xs) = None) = (find (\<lambda>c. c_id c = i) xs = None)"
  by (simp only: find_None_ids c_id_update_computer)

lemma linked_user_inactive_iff:
  "linked_user_inactive db s =
     (\<exists>uid u. s_user_id s = Some uid \<and> uid \<noteq> 0
        \<and> find (\<lambda>u. u_id u = uid) (users db) = Some u \<and> u_is_active u \<noteq> Some True)"
  by (auto simp: linked_user_inactive_def split: option.splits)

text \<open>The run of a call whose five checks all pass.\<close>

lemma admin_assign_passes:
  assumes "find (\<lambda>c. c_id c = ap_computer_id p) (computers db) = Some c"
      and "find (\<lambda>s. s_id s = ap_student_id p) (students db) = Some s"
      and "\<forall>n. usage_days_remaining s = Some n \<longrightarrow> 0 < n"
      and "\<not> linked_user_inactive db s"
      and "s_active s \<noteq> Some False"
      and "c_status c \<noteq> ''in_use''"
  shows "admin_assign now p db =
           (Inr (usage_days_remaining (decrement_usage (get_current_time now) s)),
            db\<lparr>students := update_student (decrement_usage (get_current_time now) s)
                             (students db),
               computers := update_computer
                              (c\<lparr>c_status := ''in_use'', c_current_user := Some (s_name s),
                                 c_last_updated := wall (get_current_time now)\<rparr>)
                              (computers db)\<rparr>)"
  using assms by (auto simp: admin_assign_def Let_def split: option.splits)

text \<open>A call that returns a response passed all five checks.\<close>

lemma admin_assign_Inr:
  assumes "find (\<lambda>c. c_id c = ap_computer_id p) (computers db) = Some c"
      and "find (\<lambda>s. s_id s = ap_student_id p) (students db) = Some s"
      and "admin_assign now p db = (Inr res, db')"
  shows "(\<forall>n. usage_days_remaining s = Some n \<longrightarrow> 0 < n) \<and> \<not> linked_user_inactive db s
         \<and> s_active s \<noteq> Some False \<and> c_status c \<noteq> ''in_use''"
  using assms by (auto simp: admin_assign_def Let_def split: option.splits if_splits)

lemma s_id_decrement_usage: "s_id (decrement_usage now s) = s_id s"
  by (simp add: decrement_usage_def Let_def split: option.splits)

lemma admin_assign_expired:
  assumes "find (\<lambda>c. c_id c = ap_computer_id p) (computers db) = Some c"
      and "find (\<lambda>s. s_id s = ap_student_id p) (students db) = Some s"
      and "usage_days_remaining s = Some n" and "n \<le> 0"
  shows "admin_assign now p db =
           (Inl (HTTPException 400 ''Student's usage days have expired''), db)"
  using assms by (simp add: admin_assign_def)

lemma DAY_pos: "0 < DAY"
  by (simp add: DAY_def HOUR_def)

lemma TZ_nonneg: "0 \<le> ADDIS_ABABA_TZ"
  by (simp add: ADDIS_ABABA_TZ_def HOUR_def)

text \<open>
  The day test against a timestamp recorded at instant \<open>n0\<close>, in either form in which it
  can come back: it succeeds only on a later local day.
\<close>

lemma should_decrement_later_day:
  assumes "t = column_value (get_current_time n0) \<or> t = get_current_time n0"
      and "should_decrement (get_current_time now) (Some t)"
  shows "date_of (get_current_time n0) < date_of (get_current_time now)"
proof -
  have mono: "(n0 + ADDIS_ABABA_TZ) div DAY \<le> (n0 + ADDIS_ABABA_TZ + ADDIS_ABABA_TZ) div DAY"
    using DAY_pos TZ_nonneg by (intro zdiv_mono1) auto
  from assms(1) show ?thesis
  proof
    assume "t = column_value (get_current_time n0)"
    with assms(2) mono show ?thesis
      by (simp add: should_decrement_def column_value_def get_current_time_def date_of_def)
  next
    assume "t = get_current_time n0"
    with assms(2) show ?thesis
      by (simp add: should_decrement_def get_current_time_def date_of_def)
  qed
qed

text \<open>
  The usage update of a direct assignment that goes through, for a student with a usage
  count \<open>r\<close>: the response is the count left in the student's row. When the day test of the handler
  succeeds the count is \<open>r - 1\<close>, the decrement time is recorded and the active flag is
  switched off if the count reached 0; otherwise the row is untouched. With no recorded
  decrement the count always drops. When a decrement was recorded at instant \<open>n0\<close> and
  the count drops again, the local date of the call is strictly later than the local
  date of \<open>n0\<close>, so there is at most one decrement per local day. Once the count left
  is 0, every further assignment of the student to an existing computer, at any time, is
  refused for the exhausted quota and leaves the store as it is.
\<close>

theorem admin_assign_usage_decrement:
  assumes c: "find (\<lambda>c. c_id c = ap_computer_id (p::AssignPayload)) (computers db) = Some c"
      and s: "find (\<lambda>s. s_id s = ap_student_id p) (students db) = Some s"
      and r: "usage_days_remaining s = Some r"
      and ok: "admin_assign now p db = (Inr res, db')"
  shows "\<exists>s'. find (\<lambda>s. s_id s = ap_student_id p) (students db') = Some s'
           \<and> res = usage_days_remaining s'
           \<and> (if should_decrement (get_current_time now) (usage_last_decrement_at s)
               then usage_days_remaining s' = Some (r - 1)
                    \<and> usage_last_decrement_at s' = Some (column_value (get_current_time now))
                    \<and> s_active s' = (if r - 1 = 0 then Some False else s_active s)
               else s' = s)
           \<and> (usage_last_decrement_at s = None \<longrightarrow> usage_days_remaining s' = Some (r - 1))
           \<and> (\<forall>n0 t. (t = column_value (get_current_time n0) \<or> t = get_current_time n0)
                  \<and> usage_last_decrement_at s = Some t \<and> usage_days_remaining s' \<noteq> Some r
                \<longrightarrow> date_of (get_current_time n0) < date_of (get_current_time now))
           \<and> (usage_days_remaining s' = Some 0 \<longrightarrow>
                (\<forall>now2 (p2::AssignPayload). ap_student_id p2 = ap_student_id p
                     \<and> find (\<lambda>c. c_id c = ap_computer_id p2) (computers db') \<noteq> None
                   \<longrightarrow> admin_assign now2 p2 db' =
                         (Inl (HTTPException 400 ''Student's usage days have expired''), db')))"
proof -
  define s' where "s' = decrement_usage (get_current_time now) s"
  from admin_assign_Inr [OF c s ok]
  have pass: "\<forall>n. usage_days_remaining s = Some n \<longrightarrow> 0 < n" "\<not> linked_user_inactive db s"
             "s_active s \<noteq> Some False" "c_status c \<noteq> ''in_use''"
    by blast+
  from pass(1) r have rpos: "0 < r" by simp
  from admin_assign_passes [OF c s pass, of now] ok
  have res: "res = usage_days_remaining s'"
    and db': "students db' = update_student s' (students db)"
    and comps: "computers db' = update_computer
                   (c\<lparr>c_status := ''in_use'', c_current_user := Some (s_name s),
                      c_last_updated := wall (get_current_time now)\<rparr>) (computers db)"
    by (auto simp: s'_def)
  have id': "s_id s' = ap_student_id p"
    using find_s_id [OF s] by (simp add: s'_def s_id_decrement_usage)
  have look: "find (\<lambda>s. s_id s = ap_student_id p) (students db') = Some s'"
    unfolding db' using s id' by (rule find_update_student)
  have step: "if should_decrement (get_current_time now) (usage_last_decrement_at s)
              then usage_days_remaining s' = Some (r - 1)
                   \<and> usage_last_decrement_at s' = Some (column_value (get_current_time now))
                   \<and> s_active s' = (if r - 1 = 0 then Some False else s_active s)
              else s' = s"
    using r rpos by (auto simp: s'_def decrement_usage_def Let_def)
  have fresh: "usage_last_decrement_at s = None \<longrightarrow> usage_days_remaining s' = Some (r - 1)"
    using step by (auto simp: should_decrement_def)
  have later: "\<forall>n0 t. (t = column_value (get_current_time n0) \<or> t = get_current_time n0)
                  \<and> usage_last_decrement_at s = Some t \<and> usage_days_remaining s' \<noteq> Some r
                \<longrightarrow> date_of (get_current_time n0) < date_of (get_current_time now)"
  proof (intro allI impI)
    fix n0 t
    assume h: "(t = column_value (get_current_time n0) \<or> t = get_current_time n0)
                  \<and> usage_last_decrement_at s = Some t \<and> usage_days_remaining s' \<noteq> Some r"
    with step r have "should_decrement (get_current_time now) (Some t)"
      by (auto split: if_splits)
    with h show "date_of (get_current_time n0) < date_of (get_current_time now)"
      using should_decrement_later_day by blast
  qed
  have again: "usage_days_remaining s' = Some 0 \<longrightarrow>
                (\<forall>now2 (p2::AssignPayload). ap_student_id p2 = ap_student_id p
                     \<and> find (\<lambda>c. c_id c = ap_computer_id p2) (computers db') \<noteq> None
                   \<longrightarrow> admin_assign now2 p2 db' =
                         (Inl (HTTPException 400 ''Student's usage days have expired''), db'))"
  proof (intro allI impI)
    fix now2 and p2 :: AssignPayload
    assume z: "usage_days_remaining s' = Some 0"
       and h: "ap_student_id p2 = ap_student_id p
                 \<and> find (\<lambda>c. c_id c = ap_computer_id p2) (computers db') \<noteq> None"
    then obtain c2 where c2: "find (\<lambda>c. c_id c = ap_computer_id p2) (computers db') = Some c2"
      by blast
    from look h have s2: "find (\<lambda>s. s_id s = ap_student_id p2) (students db') = Some s'"
      by simp
    show "admin_assign now2 p2 db' =
            (Inl (HTTPException 400 ''Student's usage days have expired''), db')"
      by (rule admin_assign_expired [OF c2 s2 z]) simp
  qed
  show ?thesis
    by (rule exI [of _ s'], intro conjI) (fact look res step fresh later again)+
qed

theorem admin_assign_usage_decrement_witness:
  "find (\<lambda>c. c_id c = ap_computer_id demo_assign) (computers demo_db) = Some pc1
   \<and> find (\<lambda>s. s_id s = ap_student_id demo_assign) (students demo_db) = Some demo_student
   \<and> usage_days_remaining demo_student = Some 1
   \<and> fst (admin_assign demo_now demo_assign demo_db) = Inr (Some 0)
   \<and> (\<exists>s'. find (\<lambda>s. s_id s = 5) (students (snd (admin_assign demo_now demo_assign demo_db)))
              = Some s'
          \<and> usage_days_remaining s' = Some 0 \<and> s_active s' = Some False
          \<and> usage_last_decrement_at s' = Some (column_value (get_current_time demo_now)))
   \<and> admin_assign demo_later demo_assign (snd (admin_assign demo_now demo_assign demo_db)) =
       (Inl (HTTPException 400 ''Student's usage days have expired''),
        snd (admin_assign demo_now demo_assign demo_db))"
proof -
  define db' where "db' = snd (admin_assign demo_now demo_assign demo_db)"
  have c: "find (\<lambda>c. c_id c = ap_computer_id demo_assign) (computers demo_db) = Some pc1"
    by (simp add: demo_assign_def demo_db_def pc1_def)
  have s: "find (\<lambda>s. s_id s = ap_student_id demo_assign) (students demo_db) = Some demo_student"
    by (simp add: demo_assign_def demo_db_def demo_student_def)
  have r: "usage_days_remaining demo_student = Some 1"
    by (simp add: demo_student_def)
  have last: "usage_last_decrement_at demo_student = None"
    by (simp add: demo_student_def)
  have act: "s_active demo_student = Some True"
    by (simp add: demo_student_def)
  have lu: "\<not> linked_user_inactive demo_db demo_student"
    by (simp add: linked_user_inactive_def demo_db_def demo_student_def demo_user_def)
  have st: "c_status pc1 \<noteq> ''in_use''"
    by (simp add: pc1_def)
  have f: "fst (admin_assign demo_now demo_assign demo_db) = Inr (Some 0)"
    using admin_assign_passes [OF c s _ lu _ st, of demo_now] r act last
    by (simp add: decrement_usage_def should_decrement_def)
  then have ok: "admin_assign demo_now demo_assign demo_db = (Inr (Some 0), db')"
    by (simp add: db'_def prod_eq_iff)
  have comp: "find (\<lambda>c. c_id c = ap_computer_id demo_assign) (computers db') \<noteq> None"
    using admin_assign_passes [OF c s _ lu _ st, of demo_now] r act
    by (simp add: db'_def find_computer_kept c)
  from admin_assign_usage_decrement [OF c s r ok]
  obtain s' where look: "find (\<lambda>s. s_id s = ap_student_id demo_assign) (students db') = Some s'"
    and step: "if should_decrement (get_current_time demo_now)
                    (usage_last_decrement_at demo_student)
               then usage_days_remaining s' = Some (1 - 1)
                    \<and> usage_last_decrement_at s' = Some (column_value (get_current_time demo_now))
                    \<and> s_active s' = (if (1::int) - 1 = 0 then Some False
                                      else s_active demo_student)
               else s' = demo_student"
    and again: "usage_days_remaining s' = Some 0 \<longrightarrow>
                (\<forall>now2 (p2::AssignPayload). ap_student_id p2 = ap_student_id demo_assign
                     \<and> find (\<lambda>c. c_id c = ap_computer_id p2) (computers db') \<noteq> None
                   \<longrightarrow> admin_assign now2 p2 db' =
                         (Inl (HTTPException 400 ''Student's usage days have expired''), db'))"
    by blast
  from step last have vals: "usage_days_remaining s' = Some 0" "s_active s' = Some False"
      "usage_last_decrement_at s' = Some (column_value (get_current_time demo_now))"
    by (simp_all add: should_decrement_def)
  from again vals(1) comp
  have second: "admin_assign demo_later demo_assign db' =
                  (Inl (HTTPException 400 ''Student's usage days have expired''), db')"
    by blast
  from look have look5: "find (\<lambda>s. s_id s = 5) (students db') = Some s'"
    by (simp add: demo_assign_def)
  show ?thesis
    unfolding db'_def [symmetric]
    using c s r f look5 vals second by blast
qed


text \<open>
  C3. The handler does not keep to one decrement per local calendar day. A decrement
  made on Monday at 22:00 local time is stored as the wall-clock reading 22:00 without
  its zone; main.py:703 reads the stored value back as UTC and converts it to local
  time, which gives Tuesday 01:00. A call on Tuesday at 10:00 local time, a strictly
  later local date than that of the last decrement, therefore fails the day test of
  main.py:704 and leaves the count at 3, where the rule (and the comment of
  main.py:702) asks for a decrement to 2.
\<close>

theorem admin_assign_next_day_not_decremented:
  "date_of (get_current_time monday_night) = 19786
   \<and> date_of (get_current_time tuesday_morning) = 19787
   \<and> usage_days_remaining demo_student4 = Some 4
   \<and> usage_last_decrement_at demo_student4 = None
   \<and> fst (admin_assign monday_night demo_assign demo_db4) = Inr (Some 3)
   \<and> find (\<lambda>s. s_id s = 5)
        (students (snd (admin_assign monday_night demo_assign demo_db4))) =
       Some (demo_student4\<lparr>usage_days_remaining := Some 3,
               usage_last_decrement_at := Some (Naive (19786 * DAY + 22 * HOUR))\<rparr>)
   \<and> fst (admin_assign tuesday_morning demo_assign2
             (snd (admin_assign monday_night demo_assign demo_db4))) = Inr (Some 3)"
  by (simp add: admin_assign_def Let_def linked_user_inactive_def decrement_usage_def
        should_decrement_def column_value_def get_current_time_def date_of_def
        update_student_def update_computer_def demo_db4_def demo_student4_def demo_db_def
        demo_student_def demo_user_def pc1_def pc2_def demo_assign_def demo_assign2_def
        monday_night_def tuesday_morning_def ADDIS_ABABA_TZ_def DAY_def HOUR_def)

text \<open>
  C4, as amended. The five checks run in the order: both rows exist; the usage count,
  when set, is positive; the linked user, when there is one, is active; the student's
  own flag is not false; the computer is not in use. The first check that fails decides
  the error and the store is left as it is. The checks on the linked user and on the
  student's own flag raise one and the same error; the four errors that occur are
  pairwise different. When every check passes the computer's row has status
  \<open>in_use\<close>, the student's name as occupant and the time of the call.
\<close>

theorem admin_assign_check_order:
  fixes p :: AssignPayload
  assumes c: "find (\<lambda>c. c_id c = ap_computer_id p) (computers db) = co"
      and s: "find (\<lambda>s. s_id s = ap_student_id p) (students db) = so"
  shows "(co = None \<or> so = None \<longrightarrow>
            admin_assign now p db =
              (Inl (HTTPException 404 ''Computer or Student not found''), db))
       \<and> (\<forall>cr sr. co = Some cr \<and> so = Some sr \<longrightarrow>
            (if \<exists>n. usage_days_remaining sr = Some n \<and> n \<le> 0
             then admin_assign now p db =
                    (Inl (HTTPException 400 ''Student's usage days have expired''), db)
             else if \<exists>uid u. s_user_id sr = Some uid \<and> uid \<noteq> 0
                        \<and> find (\<lambda>u. u_id u = uid) (users db) = Some u
                        \<and> u_is_active u \<noteq> Some True
             then admin_assign now p db =
                    (Inl (HTTPException 400 ''Student is inactive and cannot be assigned''), db)
             else if s_active sr = Some False
             then admin_assign now p db =
                    (Inl (HTTPException 400 ''Student is inactive and cannot be assigned''), db)
             else if c_status cr = ''in_use''
             then admin_assign now p db = (Inl (HTTPException 400 ''Computer already in use''), db)
             else (\<exists>res cr'. fst (admin_assign now p db) = Inr res
                     \<and> find (\<lambda>c. c_id c = ap_computer_id p)
                          (computers (snd (admin_assign now p db))) = Some cr'
                     \<and> c_status cr' = ''in_use'' \<and> c_current_user cr' = Some (s_name sr)
                     \<and> c_last_updated cr' = wall (get_current_time now)
                     \<and> c_name cr' = c_name cr)))
       \<and> distinct [HTTPException 404 ''Computer or Student not found'',
                    HTTPException 400 ''Student's usage days have expired'',
                    HTTPException 400 ''Student is inactive and cannot be assigned'',
                    HTTPException 400 ''Computer already in use'']"
proof (intro conjI allI impI)
  show "distinct [HTTPException 404 ''Computer or Student not found'',
                    HTTPException 400 ''Student's usage days have expired'',
                    HTTPException 400 ''Student is inactive and cannot be assigned'',
                    HTTPException 400 ''Computer already in use'']"
    by simp
next
  assume "co = None \<or> so = None"
  with c s show "admin_assign now p db =
                   (Inl (HTTPException 404 ''Computer or Student not found''), db)"
    by (auto simp: admin_assign_def split: option.splits)
next
  fix cr sr
  assume found: "co = Some cr \<and> so = Some sr"
  with c s have c': "find (\<lambda>c. c_id c = ap_computer_id p) (computers db) = Some cr"
    and s': "find (\<lambda>s. s_id s = ap_student_id p) (students db) = Some sr"
    by simp_all
  let ?cr' = "cr\<lparr>c_status := ''in_use'', c_current_user := Some (s_name sr),
                    c_last_updated := wall (get_current_time now)\<rparr>"
  have idc: "c_id ?cr' = ap_computer_id p"
    using find_c_id [OF c'] by simp
  have good: "\<exists>res cr'. fst (admin_assign now p db) = Inr res
                     \<and> find (\<lambda>c. c_id c = ap_computer_id p)
                          (computers (snd (admin_assign now p db))) = Some cr'
                     \<and> c_status cr' = ''in_use'' \<and> c_current_user cr' = Some (s_name sr)
                     \<and> c_last_updated cr' = wall (get_current_time now)
                     \<and> c_name cr' = c_name cr"
    if pass: "\<forall>n. usage_days_remaining sr = Some n \<longrightarrow> 0 < n" "\<not> linked_user_inactive db sr"
             "s_active sr \<noteq> Some False" "c_status cr \<noteq> ''in_use''"
  proof -
    note run = admin_assign_passes [OF c' s' pass, of now]
    have A: "find (\<lambda>c. c_id c = ap_computer_id p)
            (computers (snd (admin_assign now p db))) = Some ?cr'"
      unfolding run using find_update_computer [OF c' idc] by simp
    have B: "fst (admin_assign now p db) =
                     Inr (usage_days_remaining (decrement_usage (get_current_time now) sr))"
      unfolding run by simp
    show ?thesis
      apply (rule exI [of _ "usage_days_remaining (decrement_usage (get_current_time now) sr)"])
      apply (rule exI [of _ ?cr'])
      apply (simp add: A B)
      done
  qed
  have main: "if \<exists>n. usage_days_remaining sr = Some n \<and> n \<le> 0
             then admin_assign now p db =
                    (Inl (HTTPException 400 ''Student's usage days have expired''), db)
             else if linked_user_inactive db sr
             then admin_assign now p db =
                    (Inl (HTTPException 400 ''Student is inactive and cannot be assigned''), db)
             else if s_active sr = Some False
             then admin_assign now p db =
                    (Inl (HTTPException 400 ''Student is inactive and cannot be assigned''), db)
             else if c_status cr = ''in_use''
             then admin_assign now p db = (Inl (HTTPException 400 ''Computer already in use''), db)
             else (\<exists>res cr'. fst (admin_assign now p db) = Inr res
                     \<and> find (\<lambda>c. c_id c = ap_computer_id p)
                          (computers (snd (admin_assign now p db))) = Some cr'
                     \<and> c_status cr' = ''in_use'' \<and> c_current_user cr' = Some (s_name sr)
                     \<and> c_last_updated cr' = wall (get_current_time now)
                     \<and> c_name cr' = c_name cr)"
  proof (cases "\<exists>n. usage_days_remaining sr = Some n \<and> n \<le> 0")
    case True
    then show ?thesis using c' s' by (auto simp: admin_assign_def)
  next
    case q: False
    then have q': "\<forall>n. usage_days_remaining sr = Some n \<longrightarrow> 0 < n" by auto
    have nq: "\<not> (case usage_days_remaining sr of None \<Rightarrow> False | Some r \<Rightarrow> r \<le> 0)"
      using q by (auto split: option.splits)
    show ?thesis
    proof (cases "linked_user_inactive db sr")
      case True
      then show ?thesis using c' s' q nq by (simp add: admin_assign_def)
    next
      case l: False
      show ?thesis
      proof (cases "s_active sr = Some False")
        case True
        then show ?thesis using c' s' q nq l by (simp add: admin_assign_def)
      next
        case a: False
        show ?thesis
        proof (cases "c_status cr = ''in_use''")
          case True
          then show ?thesis using c' s' q nq l a by (simp add: admin_assign_def)
        next
          case False
          show ?thesis
            unfolding if_not_P [OF q] if_not_P [OF l] if_not_P [OF a] if_not_P [OF False]
            by (rule good [OF q' l a False])
        qed
      qed
    qed
  qed
  from main show "if \<exists>n. usage_days_remaining sr = Some n \<and> n \<le> 0
             then admin_assign now p db =
                    (Inl (HTTPException 400 ''Student's usage days have expired''), db)
             else if \<exists>uid u. s_user_id sr = Some uid \<and> uid \<noteq> 0
                        \<and> find (\<lambda>u. u_id u = uid) (users db) = Some u
                        \<and> u_is_active u \<noteq> Some True
             then admin_assign now p db =
                    (Inl (HTTPException 400 ''Student is inactive and cannot be assigned''), db)
             else if s_active sr = Some False
             then admin_assign now p db =
                    (Inl (HTTPException 400 ''Student is inactive and cannot be assigned''), db)
             else if c_status cr = ''in_use''
             then admin_assign now p db = (Inl (HTTPException 400 ''Computer already in use''), db)
             else (\<exists>res cr'. fst (admin_assign now p db) = Inr res
                     \<and> find (\<lambda>c. c_id c = ap_computer_id p)
                          (computers (snd (admin_assign now p db))) = Some cr'
                     \<and> c_status cr' = ''in_use'' \<and> c_current_user cr' = Some (s_name sr)
                     \<and> c_last_updated cr' = wall (get_current_time now)
                     \<and> c_name cr' = c_name cr)"
    unfolding linked_user_inactive_iff .
qed

theorem admin_assign_check_order_witness:
  "find (\<lambda>c. c_id c = ap_computer_id demo_assign) (computers demo_db) = Some pc1
   \<and> find (\<lambda>s. s_id s = ap_student_id demo_assign) (students demo_db) = Some demo_student
   \<and> (\<exists>res cr'. fst (admin_assign demo_now demo_assign demo_db) = Inr res
         \<and> find (\<lambda>c. c_id c = ap_computer_id demo_assign)
              (computers (snd (admin_assign demo_now demo_assign demo_db))) = Some cr'
         \<and> c_status cr' = ''in_use'' \<and> c_current_user cr' = Some ''Abebe''
         \<and> c_last_updated cr' = demo_now + ADDIS_ABABA_TZ)
   \<and> admin_assign demo_now \<lparr>ap_computer_id = 9, ap_student_id = 5\<rparr> demo_db =
        (Inl (HTTPException 404 ''Computer or Student not found''), demo_db)"
proof -
  have c: "find (\<lambda>c. c_id c = ap_computer_id demo_assign) (computers demo_db) = Some pc1"
    by (simp add: demo_assign_def demo_db_def pc1_def)
  have s: "find (\<lambda>s. s_id s = ap_student_id demo_assign) (students demo_db) = Some demo_student"
    by (simp add: demo_assign_def demo_db_def demo_student_def)
  have c9: "find (\<lambda>c. c_id c = ap_computer_id \<lparr>ap_computer_id = 9, ap_student_id = 5\<rparr>)
              (computers demo_db) = None"
    by (simp add: demo_db_def pc1_def pc2_def)
  have q: "\<not> (\<exists>n. usage_days_remaining demo_student = Some n \<and> n \<le> 0)"
    by (simp add: demo_student_def)
  have l: "\<not> (\<exists>uid u. s_user_id demo_student = Some uid \<and> uid \<noteq> 0
                        \<and> find (\<lambda>u. u_id u = uid) (users demo_db) = Some u
                        \<and> u_is_active u \<noteq> Some True)"
    by (auto simp: demo_student_def demo_db_def demo_user_def)
  have a: "\<not> s_active demo_student = Some False"
    by (simp add: demo_student_def)
  have u: "\<not> c_status pc1 = ''in_use''"
    by (simp add: pc1_def)
  note T = admin_assign_check_order [OF c s, of demo_now]
  from T have "if \<exists>n. usage_days_remaining demo_student = Some n \<and> n \<le> 0
             then admin_assign demo_now demo_assign demo_db =
                    (Inl (HTTPException 400 ''Student's usage days have expired''), demo_db)
             else if \<exists>uid u. s_user_id demo_student = Some uid \<and> uid \<noteq> 0
                        \<and> find (\<lambda>u. u_id u = uid) (users demo_db) = Some u
                        \<and> u_is_active u \<noteq> Some True
             then admin_assign demo_now demo_assign demo_db =
                    (Inl (HTTPException 400 ''Student is inactive and cannot be assigned''),
                     demo_db)
             else if s_active demo_student = Some False
             then admin_assign demo_now demo_assign demo_db =
                    (Inl (HTTPException 400 ''Student is inactive and cannot be assigned''),
                     demo_db)
             else if c_status pc1 = ''in_use''
             then admin_assign demo_now demo_assign demo_db =
                    (Inl (HTTPException 400 ''Computer already in use''), demo_db)
             else (\<exists>res cr'. fst (admin_assign demo_now demo_assign demo_db) = Inr res
                     \<and> find (\<lambda>c. c_id c = ap_computer_id demo_assign)
                          (computers (snd (admin_assign demo_now demo_assign demo_db))) = Some cr'
                     \<and> c_status cr' = ''in_use'' \<and> c_current_user cr' = Some (s_name demo_student)
                     \<and> c_last_updated cr' = wall (get_current_time demo_now)
                     \<and> c_name cr' = c_name pc1)"
    by (elim conjE allE [of _ pc1] allE [of _ demo_student]) simp
  then have ok: "\<exists>res cr'. fst (admin_assign demo_now demo_assign demo_db) = Inr res
                     \<and> find (\<lambda>c. c_id c = ap_computer_id demo_assign)
                          (computers (snd (admin_assign demo_now demo_assign demo_db))) = Some cr'
                     \<and> c_status cr' = ''in_use'' \<and> c_current_user cr' = Some (s_name demo_student)
                     \<and> c_last_updated cr' = wall (get_current_time demo_now)
                     \<and> c_name cr' = c_name pc1"
    unfolding if_not_P [OF q] if_not_P [OF l] if_not_P [OF a] if_not_P [OF u] .
  have nm: "s_name demo_student = ''Abebe''" by (simp add: demo_student_def)
  have tm: "wall (get_current_time demo_now) = demo_now + ADDIS_ABABA_TZ"
    by (simp add: get_current_time_def)
  from admin_assign_check_order [OF c9 refl, of demo_now]
  have nf: "admin_assign demo_now \<lparr>ap_computer_id = 9, ap_student_id = 5\<rparr> demo_db =
        (Inl (HTTPException 404 ''Computer or Student not found''), demo_db)"
    by (elim conjE) simp
  from ok obtain res cr' where
    "fst (admin_assign demo_now demo_assign demo_db) = Inr res"
    "find (\<lambda>c. c_id c = ap_computer_id demo_assign)
        (computers (snd (admin_assign demo_now demo_assign demo_db))) = Some cr'"
    "c_status cr' = ''in_use''" "c_current_user cr' = Some ''Abebe''"
    "c_last_updated cr' = demo_now + ADDIS_ABABA_TZ"
    unfolding nm tm by blast
  then have ok': "\<exists>res cr'. fst (admin_assign demo_now demo_assign demo_db) = Inr res
         \<and> find (\<lambda>c. c_id c = ap_computer_id demo_assign)
              (computers (snd (admin_assign demo_now demo_assign demo_db))) = Some cr'
         \<and> c_status cr' = ''in_use'' \<and> c_current_user cr' = Some ''Abebe''
         \<and> c_last_updated cr' = demo_now + ADDIS_ABABA_TZ"
    by blast
  show ?thesis
    by (intro conjI) (fact c s ok' nf)+
qed

text \<open>
  An inactive linked user (third check) and a switched-off student flag (fourth check)
  are reported with the same status code and the same detail.
\<close>

theorem admin_assign_same_reason_counterexample:
  "find (\<lambda>s. s_id s = 5) (students demo_db_user_off) = Some demo_student
   \<and> linked_user_inactive demo_db_user_off demo_student
   \<and> s_active demo_student = Some True
   \<and> find (\<lambda>s. s_id s = 5) (students demo_db_flag_off) =
        Some (demo_student\<lparr>s_user_id := None, s_active := Some False\<rparr>)
   \<and> admin_assign demo_now demo_assign demo_db_user_off =
        (Inl (HTTPException 400 ''Student is inactive and cannot be assigned''),
         demo_db_user_off)
   \<and> admin_assign demo_now demo_assign demo_db_flag_off =
        (Inl (HTTPException 400 ''Student is inactive and cannot be assigned''),
         demo_db_flag_off)"
  by (simp add: admin_assign_def linked_user_inactive_def demo_db_user_off_def
        demo_db_flag_off_def demo_db_def demo_student_def demo_user_def demo_assign_def
        pc1_def pc2_def)

subsection \<open>Student self-service booking\<close>

lemma count_pos_iff: "(0 < length (filter P xs)) = (\<exists>x\<in>set xs. P x)"
  by (induction xs) auto

lemma create_booking_student_run:
  assumes "get_or_create_student cu db = Some (st, db1)"
      and "parse_times strptime fromisoformat bk = Inr (t1, t2)"
  shows "create_booking_student strptime fromisoformat now bk cu db =
           (if \<exists>b\<in>set (bookings db1).
                 conflicts (sb_computer_id bk) (wall (convert_to_utc t1))
                   (wall (convert_to_utc t2)) b
            then (Inl (HTTPException 400
                         ''Computer is not available for the requested time slot''), db1)
            else (Inr (new_booking now db1 (sb_computer_id bk) (s_id st)
                         (wall (convert_to_utc t1)) (wall (convert_to_utc t2))),
                  db1\<lparr>bookings := bookings db1 @
                     [new_booking now db1 (sb_computer_id bk) (s_id st)
                         (wall (convert_to_utc t1)) (wall (convert_to_utc t2))]\<rparr>))"
  using assms by (auto simp: create_booking_student_def Let_def filter_empty_conv)

lemma create_booking_student_bad_time:
  assumes "get_or_create_student cu db = Some (st, db1)"
      and "parse_times strptime fromisoformat bk = Inl e"
  shows "create_booking_student strptime fromisoformat now bk cu db =
           (Inl (HTTPException 400 (''Invalid datetime format: '' @ e)), db1)"
  using assms by (simp add: create_booking_student_def)

lemma max_id_ge: "x \<in> set xs \<Longrightarrow> x \<le> max_id xs"
  by (induction xs rule: max_id.induct) auto

lemma next_id_fresh: "next_id xs \<notin> set xs"
proof
  assume "next_id xs \<in> set xs"
  then have "next_id xs \<le> max_id xs" by (rule max_id_ge)
  moreover from \<open>next_id xs \<in> set xs\<close> have "xs \<noteq> []" by auto
  ultimately show False by (simp add: next_id_def)
qed

lemma conflicts_iff:
  "conflicts cid s e b =
     (b_computer_id b = cid \<and> (b_status b = ''scheduled'' \<or> b_status b = ''active'')
      \<and> b_start_time b < e \<and> b_end_time b > s)"
  by (auto simp: conflicts_def status_open_def)

text \<open>
  C1. Once the caller's student row is there and both times parse, the booking is refused
  with the conflict error exactly when a scheduled or active booking of the requested
  computer has \<open>start < new end\<close> and \<open>end > new start\<close>. Otherwise a booking with
  status \<open>scheduled\<close>, a fresh id, the requested computer, the caller's student and the
  requested interval is appended to the table. In particular a non-empty request that
  shares an instant with such a booking's half-open interval is refused, and a request
  that every such booking ends before or begins after (also touching) is accepted.
\<close>

theorem create_booking_student_conflict:
  assumes st: "get_or_create_student cu db = Some (st, db1)"
      and parse: "parse_times strptime fromisoformat bk = Inr (t1, t2)"
  shows "((fst (create_booking_student strptime fromisoformat now bk cu db) =
            Inl (HTTPException 400 ''Computer is not available for the requested time slot''))
          = (\<exists>b\<in>set (bookings db1). b_computer_id b = sb_computer_id bk
                \<and> (b_status b = ''scheduled'' \<or> b_status b = ''active'')
                \<and> b_start_time b < wall (convert_to_utc t2)
                \<and> b_end_time b > wall (convert_to_utc t1)))
       \<and> (\<not> (\<exists>b\<in>set (bookings db1). b_computer_id b = sb_computer_id bk
                \<and> (b_status b = ''scheduled'' \<or> b_status b = ''active'')
                \<and> b_start_time b < wall (convert_to_utc t2)
                \<and> b_end_time b > wall (convert_to_utc t1)) \<longrightarrow>
            (\<exists>nb. create_booking_student strptime fromisoformat now bk cu db =
                     (Inr nb, db1\<lparr>bookings := bookings db1 @ [nb]\<rparr>)
                 \<and> b_status nb = ''scheduled'' \<and> b_computer_id nb = sb_computer_id bk
                 \<and> b_student_id nb = s_id st
                 \<and> b_start_time nb = wall (convert_to_utc t1)
                 \<and> b_end_time nb = wall (convert_to_utc t2)
                 \<and> b_id nb \<notin> b_id ` set (bookings db1)))
       \<and> (\<forall>b\<in>set (bookings db1). b_computer_id b = sb_computer_id bk
              \<and> (b_status b = ''scheduled'' \<or> b_status b = ''active'')
              \<and> {wall (convert_to_utc t1) ..< wall (convert_to_utc t2)}
                  \<inter> {b_start_time b ..< b_end_time b} \<noteq> {} \<longrightarrow>
            create_booking_student strptime fromisoformat now bk cu db =
              (Inl (HTTPException 400
                      ''Computer is not available for the requested time slot''), db1))
       \<and> ((\<forall>b\<in>set (bookings db1). b_computer_id b = sb_computer_id bk
              \<and> (b_status b = ''scheduled'' \<or> b_status b = ''active'') \<longrightarrow>
              b_end_time b \<le> wall (convert_to_utc t1)
              \<or> wall (convert_to_utc t2) \<le> b_start_time b) \<longrightarrow>
            (\<exists>nb. fst (create_booking_student strptime fromisoformat now bk cu db) = Inr nb))"
proof -
  let ?s = "wall (convert_to_utc t1)" and ?e = "wall (convert_to_utc t2)"
  let ?nb = "new_booking now db1 (sb_computer_id bk) (s_id st) ?s ?e"
  let ?C = "\<exists>b\<in>set (bookings db1). b_computer_id b = sb_computer_id bk
                \<and> (b_status b = ''scheduled'' \<or> b_status b = ''active'')
                \<and> b_start_time b < ?e \<and> b_end_time b > ?s"
  note run = create_booking_student_run [OF st parse, of now, unfolded conflicts_iff]
  have p1: "(fst (create_booking_student strptime fromisoformat now bk cu db) =
            Inl (HTTPException 400 ''Computer is not available for the requested time slot''))
          = ?C"
    unfolding run by simp
  have fresh: "b_id ?nb \<notin> b_id ` set (bookings db1)"
    using next_id_fresh [of "map b_id (bookings db1)"] by (simp add: new_booking_def)
  have p2: "\<not> ?C \<longrightarrow>
            (\<exists>nb. create_booking_student strptime fromisoformat now bk cu db =
                     (Inr nb, db1\<lparr>bookings := bookings db1 @ [nb]\<rparr>)
                 \<and> b_status nb = ''scheduled'' \<and> b_computer_id nb = sb_computer_id bk
                 \<and> b_student_id nb = s_id st
                 \<and> b_start_time nb = ?s \<and> b_end_time nb = ?e
                 \<and> b_id nb \<notin> b_id ` set (bookings db1))"
  proof
    assume "\<not> ?C"
    then have "create_booking_student strptime fromisoformat now bk cu db =
                     (Inr ?nb, db1\<lparr>bookings := bookings db1 @ [?nb]\<rparr>)"
      unfolding run by simp
    moreover have "b_status ?nb = ''scheduled''" "b_computer_id ?nb = sb_computer_id bk"
      "b_student_id ?nb = s_id st" "b_start_time ?nb = ?s" "b_end_time ?nb = ?e"
      by (simp_all add: new_booking_def)
    ultimately show "\<exists>nb. create_booking_student strptime fromisoformat now bk cu db =
                     (Inr nb, db1\<lparr>bookings := bookings db1 @ [nb]\<rparr>)
                 \<and> b_status nb = ''scheduled'' \<and> b_computer_id nb = sb_computer_id bk
                 \<and> b_student_id nb = s_id st
                 \<and> b_start_time nb = ?s \<and> b_end_time nb = ?e
                 \<and> b_id nb \<notin> b_id ` set (bookings db1)"
      using fresh by (intro exI [of _ ?nb]) simp
  qed
  have p3: "\<forall>b\<in>set (bookings db1). b_computer_id b = sb_computer_id bk
              \<and> (b_status b = ''scheduled'' \<or> b_status b = ''active'')
              \<and> {?s ..< ?e} \<inter> {b_start_time b ..< b_end_time b} \<noteq> {} \<longrightarrow>
            create_booking_student strptime fromisoformat now bk cu db =
              (Inl (HTTPException 400
                      ''Computer is not available for the requested time slot''), db1)"
  proof (intro ballI impI)
    fix b
    assume b: "b \<in> set (bookings db1)"
       and h: "b_computer_id b = sb_computer_id bk
              \<and> (b_status b = ''scheduled'' \<or> b_status b = ''active'')
              \<and> {?s ..< ?e} \<inter> {b_start_time b ..< b_end_time b} \<noteq> {}"
    then have "b_start_time b < ?e \<and> b_end_time b > ?s" by auto
    with b h have ?C by blast
    then show "create_booking_student strptime fromisoformat now bk cu db =
              (Inl (HTTPException 400
                      ''Computer is not available for the requested time slot''), db1)"
      unfolding run by simp
  qed
  have p4: "(\<forall>b\<in>set (bookings db1). b_computer_id b = sb_computer_id bk
              \<and> (b_status b = ''scheduled'' \<or> b_status b = ''active'') \<longrightarrow>
              b_end_time b \<le> ?s \<or> ?e \<le> b_start_time b) \<longrightarrow>
            (\<exists>nb. fst (create_booking_student strptime fromisoformat now bk cu db) = Inr nb)"
  proof
    assume a: "\<forall>b\<in>set (bookings db1). b_computer_id b = sb_computer_id bk
              \<and> (b_status b = ''scheduled'' \<or> b_status b = ''active'') \<longrightarrow>
              b_end_time b \<le> ?s \<or> ?e \<le> b_start_time b"
    have "\<not> ?C"
    proof
      assume ?C
      then obtain b where "b \<in> set (bookings db1)" "b_computer_id b = sb_computer_id bk"
        "b_status b = ''scheduled'' \<or> b_status b = ''active''"
        "b_start_time b < ?e" "b_end_time b > ?s" by blast
      with a show False by fastforce
    qed
    then show "\<exists>nb. fst (create_booking_student strptime fromisoformat now bk cu db) = Inr nb"
      unfolding run by simp
  qed
  show ?thesis
    by (intro conjI) (fact p1 p2 p3 p4)+
qed

lemma demo_times:
  "parse_times demo_strptime demo_fromisoformat bk_overlap =
     Inr (Naive (19786 * DAY + 10 * HOUR + HOUR div 2), Naive (19786 * DAY + 11 * HOUR + HOUR div 2))"
  "parse_times demo_strptime demo_fromisoformat bk_after =
     Inr (Naive (19786 * DAY + 11 * HOUR), Naive (19786 * DAY + 12 * HOUR))"
  "parse_times demo_strptime demo_fromisoformat bk_bad = Inl ''Invalid isoformat string''"
  by (simp_all add: parse_times_def demo_strptime_def demo_fromisoformat_def bk_overlap_def
        bk_after_def bk_bad_def)

theorem create_booking_student_conflict_witness:
  "get_or_create_student demo_user demo_db_booked = Some (demo_student, demo_db_booked)
   \<and> fst (create_booking_student demo_strptime demo_fromisoformat demo_now bk_overlap
            demo_user demo_db_booked) =
       Inl (HTTPException 400 ''Computer is not available for the requested time slot'')
   \<and> (\<exists>nb. fst (create_booking_student demo_strptime demo_fromisoformat demo_now bk_after
                  demo_user demo_db_booked) = Inr nb)"
proof -
  have st: "get_or_create_student demo_user demo_db_booked = Some (demo_student, demo_db_booked)"
    by (simp add: get_or_create_student_def demo_db_booked_def demo_db_def demo_student_def
          demo_user_def)
  have bs: "bookings demo_db_booked = [demo_booked]"
    by (simp add: demo_db_booked_def)
  note T1 = create_booking_student_conflict [OF st demo_times(1), of demo_now]
  note T2 = create_booking_student_conflict [OF st demo_times(2), of demo_now]
  have hit: "\<exists>b\<in>set (bookings demo_db_booked). b_computer_id b = sb_computer_id bk_overlap
                \<and> (b_status b = ''scheduled'' \<or> b_status b = ''active'')
                \<and> b_start_time b
                    < wall (convert_to_utc (Naive (19786 * DAY + 11 * HOUR + HOUR div 2)))
                \<and> b_end_time b
                    > wall (convert_to_utc (Naive (19786 * DAY + 10 * HOUR + HOUR div 2)))"
    by (simp add: bs demo_booked_def bk_overlap_def ADDIS_ABABA_TZ_def DAY_def HOUR_def)
  have free: "\<forall>b\<in>set (bookings demo_db_booked). b_computer_id b = sb_computer_id bk_after
              \<and> (b_status b = ''scheduled'' \<or> b_status b = ''active'') \<longrightarrow>
              b_end_time b \<le> wall (convert_to_utc (Naive (19786 * DAY + 11 * HOUR)))
              \<or> wall (convert_to_utc (Naive (19786 * DAY + 12 * HOUR))) \<le> b_start_time b"
    by (simp add: bs demo_booked_def bk_after_def ADDIS_ABABA_TZ_def DAY_def HOUR_def)
  from T1 [THEN conjunct1] hit
  have r1: "fst (create_booking_student demo_strptime demo_fromisoformat demo_now bk_overlap
            demo_user demo_db_booked) =
       Inl (HTTPException 400 ''Computer is not available for the requested time slot'')"
    by (rule iffD2)
  from T2 [THEN conjunct2, THEN conjunct2, THEN conjunct2] free
  have r2: "\<exists>nb. fst (create_booking_student demo_strptime demo_fromisoformat demo_now bk_after
                  demo_user demo_db_booked) = Inr nb"
    by (rule mp)
  show ?thesis
    by (intro conjI) (fact st r1 r2)+
qed

text \<open>
  C10. For a caller whose student row exists, whatever its active flag, its usage
  counters and the caller's own active flag are: the handler fails with the validation
  error when a time does not parse, with the conflict error when a scheduled or active
  booking of the computer overlaps, and otherwise appends the booking for that student.
  These are its only outcomes, and the student and user tables are left as they were.
\<close>

theorem create_booking_student_no_eligibility_check:
  assumes rec: "find (\<lambda>s. s_user_id s = Some (u_id cu)) (students db) = Some st"
  shows "(case parse_times strptime fromisoformat bk of
            Inl e \<Rightarrow>
              create_booking_student strptime fromisoformat now bk cu db =
                (Inl (HTTPException 400 (''Invalid datetime format: '' @ e)), db)
          | Inr (t1, t2) \<Rightarrow>
              if \<exists>b\<in>set (bookings db). b_computer_id b = sb_computer_id bk
                   \<and> (b_status b = ''scheduled'' \<or> b_status b = ''active'')
                   \<and> b_start_time b < wall (convert_to_utc t2)
                   \<and> b_end_time b > wall (convert_to_utc t1)
              then create_booking_student strptime fromisoformat now bk cu db =
                     (Inl (HTTPException 400
                             ''Computer is not available for the requested time slot''), db)
              else (\<exists>nb. create_booking_student strptime fromisoformat now bk cu db =
                            (Inr nb, db\<lparr>bookings := bookings db @ [nb]\<rparr>)
                        \<and> b_student_id nb = s_id st
                        \<and> b_computer_id nb = sb_computer_id bk
                        \<and> b_status nb = ''scheduled''))
       \<and> students (snd (create_booking_student strptime fromisoformat now bk cu db))
           = students db
       \<and> users (snd (create_booking_student strptime fromisoformat now bk cu db)) = users db"
proof -
  have st: "get_or_create_student cu db = Some (st, db)"
    using rec by (simp add: get_or_create_student_def)
  show ?thesis
  proof (cases "parse_times strptime fromisoformat bk")
    case (Inl e)
    show ?thesis
      unfolding create_booking_student_bad_time [OF st Inl] Inl by simp
  next
    case (Inr tt)
    obtain t1 t2 where tt: "tt = (t1, t2)" by (cases tt)
    note run = create_booking_student_run [OF st Inr [unfolded tt], of now,
                 unfolded conflicts_iff]
    show ?thesis
      unfolding Inr tt run by (auto simp: new_booking_def)
  qed
qed

theorem create_booking_student_no_eligibility_check_witness:
  "find (\<lambda>s. s_user_id s = Some (u_id demo_user_off)) (students demo_db_off)
     = Some demo_student_off
   \<and> s_active demo_student_off = Some False
   \<and> usage_days_remaining demo_student_off = Some 0
   \<and> u_is_active demo_user_off = Some False
   \<and> (\<exists>nb. create_booking_student demo_strptime demo_fromisoformat demo_now bk_after
              demo_user_off demo_db_off =
                (Inr nb, demo_db_off\<lparr>bookings := bookings demo_db_off @ [nb]\<rparr>)
          \<and> b_student_id nb = 5 \<and> b_status nb = ''scheduled'')
   \<and> create_booking_student demo_strptime demo_fromisoformat demo_now bk_bad
        demo_user_off demo_db_off =
       (Inl (HTTPException 400 ''Invalid datetime format: Invalid isoformat string''),
        demo_db_off)
   \<and> students (snd (create_booking_student demo_strptime demo_fromisoformat demo_now bk_after
                      demo_user_off demo_db_off)) = [demo_student_off]"
proof -
  have rec: "find (\<lambda>s. s_user_id s = Some (u_id demo_user_off)) (students demo_db_off)
               = Some demo_student_off"
    by (simp add: demo_db_off_def demo_student_off_def demo_student_def demo_user_off_def
          demo_user_def)
  have flags: "s_active demo_student_off = Some False"
      "usage_days_remaining demo_student_off = Some 0" "u_is_active demo_user_off = Some False"
    by (simp_all add: demo_student_off_def demo_user_off_def)
  have sid: "s_id demo_student_off = 5"
    by (simp add: demo_student_off_def demo_student_def)
  have free: "\<not> (\<exists>b\<in>set (bookings demo_db_off). b_computer_id b = sb_computer_id bk_after
                   \<and> (b_status b = ''scheduled'' \<or> b_status b = ''active'')
                   \<and> b_start_time b < wall (convert_to_utc (Naive (19786 * DAY + 12 * HOUR)))
                   \<and> b_end_time b > wall (convert_to_utc (Naive (19786 * DAY + 11 * HOUR))))"
    by (simp add: demo_db_off_def demo_booked_def bk_after_def ADDIS_ABABA_TZ_def DAY_def
          HOUR_def)
  note T = create_booking_student_no_eligibility_check [OF rec,
             where strptime = demo_strptime and fromisoformat = demo_fromisoformat
               and bk = bk_after and now = demo_now]
  from T [THEN conjunct1]
  have ok: "\<exists>nb. create_booking_student demo_strptime demo_fromisoformat demo_now bk_after
              demo_user_off demo_db_off =
                (Inr nb, demo_db_off\<lparr>bookings := bookings demo_db_off @ [nb]\<rparr>)
          \<and> b_student_id nb = 5 \<and> b_status nb = ''scheduled''"
    unfolding demo_times(2) prod.case sum.case if_not_P [OF free] sid by blast
  from T [THEN conjunct2, THEN conjunct1]
  have keep: "students (snd (create_booking_student demo_strptime demo_fromisoformat demo_now
                bk_after demo_user_off demo_db_off)) = [demo_student_off]"
    by (simp add: demo_db_off_def)
  from create_booking_student_no_eligibility_check [OF rec,
             where strptime = demo_strptime and fromisoformat = demo_fromisoformat
               and bk = bk_bad and now = demo_now, THEN conjunct1]
  have bad: "create_booking_student demo_strptime demo_fromisoformat demo_now bk_bad
        demo_user_off demo_db_off =
       (Inl (HTTPException 400 ''Invalid datetime format: Invalid isoformat string''),
        demo_db_off)"
    unfolding demo_times(3) sum.case by simp
  show ?thesis
    by (intro conjI) (fact rec flags ok bad keep)+
qed

subsection \<open>Day toggle\<close>

lemma day_window:
  "wall (fst (day_range_in_tz (Aware (d * DAY) ADDIS_ABABA_TZ))) = d * DAY + 6 * HOUR"
  "wall (snd (day_range_in_tz (Aware (d * DAY) ADDIS_ABABA_TZ))) = d * DAY + 14 * HOUR"
  using DAY_pos by (simp_all add: day_range_in_tz_def Let_def ADDIS_ABABA_TZ_def)

lemma window_order: "d * DAY + 6 * HOUR \<le> d * DAY + 14 * HOUR"
  by (simp add: HOUR_def)

lemma on_day_iff:
  "on_day sid s e b =
     (b_student_id b = sid \<and> (b_status b = ''scheduled'' \<or> b_status b = ''active'')
      \<and> b_start_time b \<le> e \<and> b_end_time b \<ge> s)"
  by (auto simp: on_day_def status_open_def)

lemma find_None_iff_ball: "(find P xs = None) = (\<forall>x\<in>set xs. \<not> P x)"
  by (induction xs) auto

text \<open>The three ways a call with a well-formed date can go.\<close>

lemma toggle_removes:
  assumes "parse_date (tp_date p) = Some d"
      and "find (on_day (tp_student_id p) (d * DAY + 6 * HOUR) (d * DAY + 14 * HOUR))
             (bookings db) = Some ex"
  shows "toggle_day_booking parse_date now p db =
           (Inr Removed, db\<lparr>bookings := filter (\<lambda>b. b_id b \<noteq> b_id ex) (bookings db)\<rparr>)"
  using assms by (simp add: toggle_day_booking_def Let_def day_window)

lemma toggle_needs_computer:
  assumes "parse_date (tp_date p) = Some d"
      and "find (on_day (tp_student_id p) (d * DAY + 6 * HOUR) (d * DAY + 14 * HOUR))
             (bookings db) = None"
      and "tp_computer_id p = None \<or> tp_computer_id p = Some 0"
  shows "toggle_day_booking parse_date now p db =
           (Inl (HTTPException 400 ''computer_id required to add booking''), db)"
  using assms by (auto simp: toggle_day_booking_def Let_def day_window)

lemma toggle_adds:
  assumes "parse_date (tp_date p) = Some d"
      and "find (on_day (tp_student_id p) (d * DAY + 6 * HOUR) (d * DAY + 14 * HOUR))
             (bookings db) = None"
      and "tp_computer_id p = Some cid" and "cid \<noteq> 0"
      and "\<forall>b\<in>set (bookings db).
             \<not> conflicts cid (d * DAY + 6 * HOUR) (d * DAY + 14 * HOUR) b"
  shows "toggle_day_booking parse_date now p db =
           (Inr (Added (b_id (new_booking now db cid (tp_student_id p)
                                (d * DAY + 6 * HOUR) (d * DAY + 14 * HOUR)))),
            db\<lparr>bookings := bookings db @
               [new_booking now db cid (tp_student_id p)
                  (d * DAY + 6 * HOUR) (d * DAY + 14 * HOUR)]\<rparr>)"
  using assms by (simp add: toggle_day_booking_def Let_def day_window filter_empty_conv)

text \<open>
  C9. With a well-formed date and \<open>computer_id = 0\<close>: when the handler's lookup finds no
  booking of the student for the day, the call fails with the error for a missing
  \<open>computer_id\<close>, as it does with no \<open>computer_id\<close> at all, and the store is unchanged.
  This is so in particular whenever no scheduled or active booking of the student
  overlaps the requested local calendar day (midnight to midnight).
\<close>

theorem toggle_day_booking_zero_computer:
  assumes parse: "parse_date (tp_date p) = Some d"
      and zero: "tp_computer_id p = Some 0"
  shows "(find (on_day (tp_student_id p) (d * DAY + 6 * HOUR) (d * DAY + 14 * HOUR))
             (bookings db) = None \<longrightarrow>
            toggle_day_booking parse_date now p db =
              (Inl (HTTPException 400 ''computer_id required to add booking''), db)
            \<and> toggle_day_booking parse_date now (p\<lparr>tp_computer_id := None\<rparr>) db =
              toggle_day_booking parse_date now p db)
       \<and> ((\<forall>b\<in>set (bookings db). b_student_id b = tp_student_id p
               \<and> (b_status b = ''scheduled'' \<or> b_status b = ''active'') \<longrightarrow>
               \<not> (b_start_time b < (d + 1) * DAY - ADDIS_ABABA_TZ
                  \<and> b_end_time b > d * DAY - ADDIS_ABABA_TZ)) \<longrightarrow>
            toggle_day_booking parse_date now p db =
              (Inl (HTTPException 400 ''computer_id required to add booking''), db))"
proof (intro conjI impI)
  assume none: "find (on_day (tp_student_id p) (d * DAY + 6 * HOUR) (d * DAY + 14 * HOUR))
             (bookings db) = None"
  from toggle_needs_computer [where parse_date = parse_date and p = p and d = d and db = db,
         OF parse none] zero
  show a: "toggle_day_booking parse_date now p db =
              (Inl (HTTPException 400 ''computer_id required to add booking''), db)"
    by simp
  have "toggle_day_booking parse_date now (p\<lparr>tp_computer_id := None\<rparr>) db =
              (Inl (HTTPException 400 ''computer_id required to add booking''), db)"
    using parse none
    by (intro toggle_needs_computer [where parse_date = parse_date and d = d]) simp_all
  with a show "toggle_day_booking parse_date now (p\<lparr>tp_computer_id := None\<rparr>) db =
              toggle_day_booking parse_date now p db"
    by simp
next
  assume day: "\<forall>b\<in>set (bookings db). b_student_id b = tp_student_id p
               \<and> (b_status b = ''scheduled'' \<or> b_status b = ''active'') \<longrightarrow>
               \<not> (b_start_time b < (d + 1) * DAY - ADDIS_ABABA_TZ
                  \<and> b_end_time b > d * DAY - ADDIS_ABABA_TZ)"
  have none: "find (on_day (tp_student_id p) (d * DAY + 6 * HOUR) (d * DAY + 14 * HOUR))
             (bookings db) = None"
    unfolding find_None_iff_ball on_day_iff
  proof (intro ballI notI)
    fix b
    assume b: "b \<in> set (bookings db)"
       and h: "b_student_id b = tp_student_id p
                \<and> (b_status b = ''scheduled'' \<or> b_status b = ''active'')
                \<and> b_start_time b \<le> d * DAY + 14 * HOUR \<and> d * DAY + 6 * HOUR \<le> b_end_time b"
    then have "b_start_time b < (d + 1) * DAY - ADDIS_ABABA_TZ
                  \<and> b_end_time b > d * DAY - ADDIS_ABABA_TZ"
      by (simp add: ADDIS_ABABA_TZ_def DAY_def HOUR_def algebra_simps)
    with day b h show False by blast
  qed
  from toggle_needs_computer [where parse_date = parse_date and p = p and d = d and db = db,
         OF parse none] zero
  show "toggle_day_booking parse_date now p db =
              (Inl (HTTPException 400 ''computer_id required to add booking''), db)"
    by simp
qed

theorem toggle_day_booking_zero_computer_witness:
  "demo_parse_date (tp_date tg_zero) = Some 19786 \<and> tp_computer_id tg_zero = Some 0
   \<and> bookings demo_db_tuesday = [demo_tuesday]
   \<and> toggle_day_booking demo_parse_date demo_now tg_zero demo_db_tuesday =
        (Inl (HTTPException 400 ''computer_id required to add booking''), demo_db_tuesday)"
proof -
  have parse: "demo_parse_date (tp_date tg_zero) = Some 19786"
    by (simp add: demo_parse_date_def tg_zero_def)
  have zero: "tp_computer_id tg_zero = Some 0"
    by (simp add: tg_zero_def)
  have bs: "bookings demo_db_tuesday = [demo_tuesday]"
    by (simp add: demo_db_tuesday_def)
  have day: "\<forall>b\<in>set (bookings demo_db_tuesday). b_student_id b = tp_student_id tg_zero
               \<and> (b_status b = ''scheduled'' \<or> b_status b = ''active'') \<longrightarrow>
               \<not> (b_start_time b < (19786 + 1) * DAY - ADDIS_ABABA_TZ
                  \<and> b_end_time b > 19786 * DAY - ADDIS_ABABA_TZ)"
    by (simp add: bs demo_tuesday_def ADDIS_ABABA_TZ_def DAY_def HOUR_def)
  from toggle_day_booking_zero_computer
         [where parse_date = demo_parse_date and p = tg_zero and d = 19786
            and db = demo_db_tuesday and now = demo_now, OF parse zero,
          THEN conjunct2] day
  have "toggle_day_booking demo_parse_date demo_now tg_zero demo_db_tuesday =
        (Inl (HTTPException 400 ''computer_id required to add booking''), demo_db_tuesday)"
    by (rule mp)
  with parse zero bs show ?thesis by simp
qed

lemma find_append_last:
  "find P xs = None \<Longrightarrow> P x \<Longrightarrow> find P (xs @ [x]) = Some x"
  by (induction xs) (auto split: if_splits)

lemma filter_drop_fresh:
  "i \<notin> b_id ` set xs \<Longrightarrow> b_id x = i \<Longrightarrow> filter (\<lambda>b. b_id b \<noteq> i) (xs @ [x]) = xs"
  by (induction xs) auto

text \<open>
  C2, as amended. Let the date be well-formed, let the student have no scheduled or
  active booking with \<open>start \<le> window end\<close> and \<open>end \<ge> window start\<close> (none that
  overlaps or touches the working window), let \<open>computer_id\<close> be given and not 0, and let
  the computer have no scheduled or active booking with \<open>start < window end\<close> and
  \<open>end > window start\<close>. Then the call answers \<open>added\<close> with the id of a new scheduled
  booking of that computer and student from 09:00 to 17:00 local time (06:00 to 14:00
  UTC), appended to the table; and a second call for the same student and date, at any
  time and with any \<open>computer_id\<close>, answers \<open>removed\<close> and gives back the original store.
\<close>

theorem toggle_day_booking_round_trip:
  assumes parse: "parse_date (tp_date p) = Some d"
      and comp: "tp_computer_id p = Some cid" "cid \<noteq> 0"
      and none: "\<forall>b\<in>set (bookings db). b_student_id b = tp_student_id p
                   \<and> (b_status b = ''scheduled'' \<or> b_status b = ''active'') \<longrightarrow>
                   \<not> (b_start_time b \<le> d * DAY + 14 * HOUR
                      \<and> b_end_time b \<ge> d * DAY + 6 * HOUR)"
      and free: "\<forall>b\<in>set (bookings db). b_computer_id b = cid
                   \<and> (b_status b = ''scheduled'' \<or> b_status b = ''active'') \<longrightarrow>
                   \<not> (b_start_time b < d * DAY + 14 * HOUR
                      \<and> b_end_time b > d * DAY + 6 * HOUR)"
      and same: "tp_student_id p2 = tp_student_id p" "tp_date p2 = tp_date p"
  shows "\<exists>nb. toggle_day_booking parse_date now p db =
                (Inr (Added (b_id nb)), db\<lparr>bookings := bookings db @ [nb]\<rparr>)
           \<and> b_id nb \<notin> b_id ` set (bookings db)
           \<and> b_computer_id nb = cid \<and> b_student_id nb = tp_student_id p
           \<and> b_start_time nb = d * DAY + 9 * HOUR - ADDIS_ABABA_TZ
           \<and> b_end_time nb = d * DAY + 17 * HOUR - ADDIS_ABABA_TZ
           \<and> b_status nb = ''scheduled''
           \<and> toggle_day_booking parse_date now2 p2
                (snd (toggle_day_booking parse_date now p db)) = (Inr Removed, db)"
proof -
  let ?ws = "d * DAY + 6 * HOUR" and ?we = "d * DAY + 14 * HOUR"
  let ?nb = "new_booking now db cid (tp_student_id p) ?ws ?we"
  have look: "find (on_day (tp_student_id p) ?ws ?we) (bookings db) = None"
    unfolding find_None_iff_ball on_day_iff using none by blast
  have avail: "\<forall>b\<in>set (bookings db). \<not> conflicts cid ?ws ?we b"
    unfolding conflicts_iff using free by blast
  have run: "toggle_day_booking parse_date now p db =
               (Inr (Added (b_id ?nb)), db\<lparr>bookings := bookings db @ [?nb]\<rparr>)"
    by (rule toggle_adds [where parse_date = parse_date and p = p and d = d,
          OF parse look comp avail])
  have fresh: "b_id ?nb \<notin> b_id ` set (bookings db)"
    using next_id_fresh [of "map b_id (bookings db)"] by (simp add: new_booking_def)
  have fields: "b_computer_id ?nb = cid" "b_student_id ?nb = tp_student_id p"
      "b_status ?nb = ''scheduled''"
      "b_start_time ?nb = d * DAY + 9 * HOUR - ADDIS_ABABA_TZ"
      "b_end_time ?nb = d * DAY + 17 * HOUR - ADDIS_ABABA_TZ"
    by (simp_all add: new_booking_def ADDIS_ABABA_TZ_def)
  have mine: "on_day (tp_student_id p2) ?ws ?we ?nb"
    using window_order [of d] same by (simp add: on_day_iff new_booking_def)
  have parse2: "parse_date (tp_date p2) = Some d"
    using parse same by simp
  have look2: "find (on_day (tp_student_id p2) ?ws ?we)
                 (bookings (db\<lparr>bookings := bookings db @ [?nb]\<rparr>)) = Some ?nb"
    using find_append_last [where P = "on_day (tp_student_id p2) ?ws ?we"
            and xs = "bookings db" and x = "?nb"] mine look same
    by simp
  have ret: "toggle_day_booking parse_date now2 p2 (db\<lparr>bookings := bookings db @ [?nb]\<rparr>)
                = (Inr Removed, db)"
    unfolding toggle_removes [where parse_date = parse_date and p = p2 and d = d,
                OF parse2 look2]
    using filter_drop_fresh [OF fresh refl] by simp
  have again: "toggle_day_booking parse_date now2 p2
                (snd (toggle_day_booking parse_date now p db)) = (Inr Removed, db)"
    unfolding run using ret by simp
  show ?thesis
    by (rule exI [of _ ?nb], intro conjI) (fact run fresh fields again)+
qed

theorem toggle_day_booking_round_trip_witness:
  "demo_parse_date (tp_date tg_pc2) = Some 19786 \<and> tp_computer_id tg_pc2 = Some 2
   \<and> bookings demo_db_tuesday = [demo_tuesday]
   \<and> fst (toggle_day_booking demo_parse_date demo_now tg_pc2 demo_db_tuesday) = Inr (Added 2)
   \<and> toggle_day_booking demo_parse_date demo_later tg_zero
        (snd (toggle_day_booking demo_parse_date demo_now tg_pc2 demo_db_tuesday)) =
       (Inr Removed, demo_db_tuesday)"
proof -
  have parse: "demo_parse_date (tp_date tg_pc2) = Some 19786"
    by (simp add: demo_parse_date_def tg_pc2_def)
  have comp: "tp_computer_id tg_pc2 = Some 2" "(2::int) \<noteq> 0"
    by (simp_all add: tg_pc2_def)
  have bs: "bookings demo_db_tuesday = [demo_tuesday]"
    by (simp add: demo_db_tuesday_def)
  have none: "\<forall>b\<in>set (bookings demo_db_tuesday). b_student_id b = tp_student_id tg_pc2
                   \<and> (b_status b = ''scheduled'' \<or> b_status b = ''active'') \<longrightarrow>
                   \<not> (b_start_time b \<le> 19786 * DAY + 14 * HOUR
                      \<and> b_end_time b \<ge> 19786 * DAY + 6 * HOUR)"
    by (simp add: bs demo_tuesday_def DAY_def HOUR_def)
  have free: "\<forall>b\<in>set (bookings demo_db_tuesday). b_computer_id b = 2
                   \<and> (b_status b = ''scheduled'' \<or> b_status b = ''active'') \<longrightarrow>
                   \<not> (b_start_time b < 19786 * DAY + 14 * HOUR
                      \<and> b_end_time b > 19786 * DAY + 6 * HOUR)"
    by (simp add: bs demo_tuesday_def)
  have same: "tp_student_id tg_zero = tp_student_id tg_pc2" "tp_date tg_zero = tp_date tg_pc2"
    by (simp_all add: tg_zero_def tg_pc2_def)
  from toggle_day_booking_round_trip
         [where parse_date = demo_parse_date and p = tg_pc2 and d = 19786 and cid = 2
            and db = demo_db_tuesday and now = demo_now and ?p2.0 = tg_zero
            and ?now2.0 = demo_later, OF parse comp none free same]
  obtain nb where
    run: "toggle_day_booking demo_parse_date demo_now tg_pc2 demo_db_tuesday =
            (Inr (Added (b_id nb)), demo_db_tuesday\<lparr>bookings := bookings demo_db_tuesday @ [nb]\<rparr>)"
    and again: "toggle_day_booking demo_parse_date demo_later tg_zero
        (snd (toggle_day_booking demo_parse_date demo_now tg_pc2 demo_db_tuesday)) =
       (Inr Removed, demo_db_tuesday)"
    by blast
  have look: "find (on_day (tp_student_id tg_pc2) (19786 * DAY + 6 * HOUR)
                (19786 * DAY + 14 * HOUR)) (bookings demo_db_tuesday) = None"
    by (simp add: bs on_day_iff demo_tuesday_def DAY_def HOUR_def)
  have avail: "\<forall>b\<in>set (bookings demo_db_tuesday).
                 \<not> conflicts 2 (19786 * DAY + 6 * HOUR) (19786 * DAY + 14 * HOUR) b"
    by (simp add: bs conflicts_iff demo_tuesday_def)
  have first: "fst (toggle_day_booking demo_parse_date demo_now tg_pc2 demo_db_tuesday)
                 = Inr (Added 2)"
    unfolding toggle_adds [where parse_date = demo_parse_date and p = tg_pc2 and d = 19786,
                OF parse look comp avail]
    by (simp add: new_booking_def next_id_def bs demo_tuesday_def)
  show ?thesis
    by (intro conjI) (fact parse comp(1) bs first again)+
qed

text \<open>
  The claim fails in two ways. A booking of the student from 08:00 to 09:00 shares no
  instant with the half-open window 09:00-17:00, and computer 2 is free, yet the first
  call removes that booking instead of adding one. And on an empty table a call with
  \<open>computer_id = 0\<close> adds nothing.
\<close>

theorem toggle_day_booking_round_trip_counterexample:
  "bookings demo_db_early = [demo_early]
   \<and> \<not> (b_start_time demo_early < 19786 * DAY + 17 * HOUR - ADDIS_ABABA_TZ
        \<and> b_end_time demo_early > 19786 * DAY + 9 * HOUR - ADDIS_ABABA_TZ)
   \<and> toggle_day_booking demo_parse_date demo_now tg_pc2 demo_db_early = (Inr Removed, demo_db)
   \<and> bookings demo_db = []
   \<and> toggle_day_booking demo_parse_date demo_now tg_zero demo_db =
        (Inl (HTTPException 400 ''computer_id required to add booking''), demo_db)"
proof -
  have parse: "demo_parse_date (tp_date tg_pc2) = Some 19786"
      "demo_parse_date (tp_date tg_zero) = Some 19786"
    by (simp_all add: demo_parse_date_def tg_pc2_def tg_zero_def)
  have bs: "bookings demo_db_early = [demo_early]" "bookings demo_db = []"
    by (simp_all add: demo_db_early_def demo_db_def)
  have apart: "\<not> (b_start_time demo_early < 19786 * DAY + 17 * HOUR - ADDIS_ABABA_TZ
        \<and> b_end_time demo_early > 19786 * DAY + 9 * HOUR - ADDIS_ABABA_TZ)"
    by (simp add: demo_early_def ADDIS_ABABA_TZ_def DAY_def HOUR_def)
  have look: "find (on_day (tp_student_id tg_pc2) (19786 * DAY + 6 * HOUR)
                (19786 * DAY + 14 * HOUR)) (bookings demo_db_early) = Some demo_early"
    by (simp add: bs on_day_iff demo_early_def tg_pc2_def DAY_def HOUR_def)
  have r1: "toggle_day_booking demo_parse_date demo_now tg_pc2 demo_db_early
              = (Inr Removed, demo_db)"
    unfolding toggle_removes [where parse_date = demo_parse_date and p = tg_pc2 and d = 19786,
                OF parse(1) look]
    by (simp add: demo_db_early_def demo_db_def)
  have look0: "find (on_day (tp_student_id tg_zero) (19786 * DAY + 6 * HOUR)
                (19786 * DAY + 14 * HOUR)) (bookings demo_db) = None"
    by (simp add: bs)
  have r2: "toggle_day_booking demo_parse_date demo_now tg_zero demo_db =
        (Inl (HTTPException 400 ''computer_id required to add booking''), demo_db)"
    by (rule toggle_needs_computer [where parse_date = demo_parse_date and p = tg_zero
          and d = 19786, OF parse(2) look0]) (simp add: tg_zero_def)
  show ?thesis
    by (intro conjI) (fact bs apart r1 r2)+
qed

subsection \<open>Weekly schedule\<close>

lemma first_by_start_None: "(first_by_start bs = None) = (bs = [])"
proof -
  have "(sort_key b_start_time bs = []) = (bs = [])"
    by (metis length_sort list.size(3) length_0_conv)
  then show ?thesis
    by (auto simp: first_by_start_def split: list.splits)
qed

lemma first_by_start_Some:
  assumes "first_by_start bs = Some b"
  shows "b \<in> set bs \<and> (\<forall>b'\<in>set bs. b_start_time b \<le> b_start_time b')"
proof -
  from assms obtain rest where s: "sort_key b_start_time bs = b # rest"
    by (auto simp: first_by_start_def split: list.splits)
  have "set (sort_key b_start_time bs) = set bs" by simp
  with s have mem: "set bs = insert b (set rest)" by simp
  have "sorted (map b_start_time (sort_key b_start_time bs))" by (rule sorted_sort_key)
  with s have "\<forall>x\<in>set rest. b_start_time b \<le> b_start_time x" by simp
  with mem show ?thesis by auto
qed

lemma date_of_day: "date_of (Aware (n * DAY) off) = n"
  using DAY_pos by (simp add: date_of_def)

lemma schedule_cell_day:
  fixes db st n
  defines "cell \<equiv> schedule_cell db st (Aware (n * DAY) ADDIS_ABABA_TZ)"
  defines "hit \<equiv> on_day (s_id st) (n * DAY + 6 * HOUR) (n * DAY + 14 * HOUR)"
  shows "dc_date cell = n"
    and "(\<forall>b\<in>set (bookings db). \<not> hit b) \<Longrightarrow>
           has_booking cell = False \<and> booking_id cell = None \<and> computer_id cell = None"
    and "(\<exists>b\<in>set (bookings db). hit b) \<Longrightarrow>
           \<exists>b\<in>set (bookings db). hit b \<and> has_booking cell = True
              \<and> booking_id cell = Some (b_id b) \<and> computer_id cell = Some (b_computer_id b)
              \<and> (\<forall>b'\<in>set (bookings db). hit b' \<longrightarrow> b_start_time b \<le> b_start_time b')"
proof -
  let ?sel = "first_by_start (filter hit (bookings db))"
  have unf: "cell = (case ?sel of
           Some b \<Rightarrow> \<lparr>dc_date = n, has_booking = True,
                      booking_id = Some (b_id b), computer_id = Some (b_computer_id b)\<rparr>
         | None \<Rightarrow> \<lparr>dc_date = n, has_booking = False,
                    booking_id = None, computer_id = None\<rparr>)"
    by (simp add: cell_def hit_def schedule_cell_def Let_def day_window date_of_day
          split: option.splits)
  show "dc_date cell = n"
    unfolding unf by (simp split: option.splits)
  {
    assume "\<forall>b\<in>set (bookings db). \<not> hit b"
    then have "filter hit (bookings db) = []" by (simp add: filter_empty_conv)
    then have "?sel = None" by (simp add: first_by_start_None)
    then show "has_booking cell = False \<and> booking_id cell = None \<and> computer_id cell = None"
      unfolding unf by simp
  }
  {
    assume "\<exists>b\<in>set (bookings db). hit b"
    then have "filter hit (bookings db) \<noteq> []" by (simp add: filter_empty_conv)
    then obtain b where b: "?sel = Some b"
      using first_by_start_None [of "filter hit (bookings db)"] by (cases ?sel) auto
    from first_by_start_Some [OF b]
    have in_set: "b \<in> set (bookings db)" "hit b"
      and least: "\<forall>b'\<in>set (bookings db). hit b' \<longrightarrow> b_start_time b \<le> b_start_time b'"
      by auto
    have vals: "has_booking cell = True" "booking_id cell = Some (b_id b)"
        "computer_id cell = Some (b_computer_id b)"
      unfolding unf b by simp_all
    from in_set vals least
    show "\<exists>b\<in>set (bookings db). hit b \<and> has_booking cell = True
              \<and> booking_id cell = Some (b_id b) \<and> computer_id cell = Some (b_computer_id b)
              \<and> (\<forall>b'\<in>set (bookings db). hit b' \<longrightarrow> b_start_time b \<le> b_start_time b')"
      by (intro bexI [of _ b] conjI)
  }
qed

lemma week_days:
  "map (plus_days (get_monday (get_current_time now))) [0, 1, 2, 3, 4] =
     map (\<lambda>i. Aware ((date_of (get_monday (get_current_time now)) + i) * DAY) ADDIS_ABABA_TZ)
       [0, 1, 2, 3, 4]"
  using DAY_pos
  by (simp add: get_monday_def get_current_time_def Let_def weekday_def date_of_def
        algebra_simps)

lemma monday_of_week:
  "(date_of (get_monday (get_current_time now)) + 3) mod 7 = 0"
  "date_of (get_monday (get_current_time now)) \<le> date_of (get_current_time now)"
  "date_of (get_current_time now) < date_of (get_monday (get_current_time now)) + 7"
proof -
  define D where "D = (now + ADDIS_ABABA_TZ) div DAY"
  have m: "date_of (get_monday (get_current_time now)) = D - (D + 3) mod 7"
    using DAY_pos
    by (simp add: get_monday_def get_current_time_def Let_def weekday_def date_of_def D_def
          algebra_simps)
  have t: "date_of (get_current_time now) = D"
    by (simp add: get_current_time_def date_of_def D_def)
  show "(date_of (get_monday (get_current_time now)) + 3) mod 7 = 0"
    unfolding m by presburger
  show "date_of (get_monday (get_current_time now)) \<le> date_of (get_current_time now)"
    unfolding m t by presburger
  show "date_of (get_current_time now) < date_of (get_monday (get_current_time now)) + 7"
    unfolding m t by presburger
qed

lemma local_window:
  "n * DAY + 9 * HOUR - ADDIS_ABABA_TZ = n * DAY + 6 * HOUR"
  "n * DAY + 17 * HOUR - ADDIS_ABABA_TZ = n * DAY + 14 * HOUR"
  by (simp_all add: ADDIS_ABABA_TZ_def)

lemma week_rows:
  "ws_rows (get_week_schedule now db) =
     map (\<lambda>st. \<lparr>row_student_id = s_id st, row_student_name = s_name st,
                 row_days = map (\<lambda>i. schedule_cell db st
                     (Aware ((date_of (get_monday (get_current_time now)) + i) * DAY)
                        ADDIS_ABABA_TZ)) [0, 1, 2, 3, 4]\<rparr>)
       (sort_key s_name (students db))"
proof -
  have "ws_rows (get_week_schedule now db) =
     map (\<lambda>st. \<lparr>row_student_id = s_id st, row_student_name = s_name st,
                 row_days = map (schedule_cell db st)
                   (map (plus_days (get_monday (get_current_time now))) [0, 1, 2, 3, 4])\<rparr>)
       (sort_key s_name (students db))"
    by (simp add: get_week_schedule_def Let_def)
  then show ?thesis
    unfolding week_days by simp
qed

lemma week_header:
  "week_start (get_week_schedule now db) = date_of (get_monday (get_current_time now))"
  "week_end (get_week_schedule now db) = date_of (get_monday (get_current_time now)) + 4"
  "ws_days (get_week_schedule now db) = [0, 1, 2, 3, 4]"
proof -
  let ?M = "date_of (get_monday (get_current_time now))"
  let ?days = "map (plus_days (get_monday (get_current_time now))) [0, 1, 2, 3, 4]"
  have h: "week_start (get_week_schedule now db) = date_of (hd ?days)"
      "week_end (get_week_schedule now db) = date_of (last ?days)"
      "ws_days (get_week_schedule now db) = map weekday ?days"
    by (simp_all add: get_week_schedule_def Let_def)
  have wd: "\<And>i. weekday (Aware ((?M + i) * DAY) ADDIS_ABABA_TZ) = (?M + i + 3) mod 7"
    by (simp add: weekday_def date_of_day)
  have m3: "(?M + 3) mod 7 = 0" by (rule monday_of_week)
  show "week_start (get_week_schedule now db) = ?M"
    unfolding h week_days by (simp add: date_of_day)
  show "week_end (get_week_schedule now db) = ?M + 4"
    unfolding h week_days by (simp add: date_of_day)
  have w: "weekday (Aware ((?M + 0) * DAY) ADDIS_ABABA_TZ) = 0"
      "weekday (Aware ((?M + 1) * DAY) ADDIS_ABABA_TZ) = 1"
      "weekday (Aware ((?M + 2) * DAY) ADDIS_ABABA_TZ) = 2"
      "weekday (Aware ((?M + 3) * DAY) ADDIS_ABABA_TZ) = 3"
      "weekday (Aware ((?M + 4) * DAY) ADDIS_ABABA_TZ) = 4"
    unfolding wd using m3 by presburger+
  show "ws_days (get_week_schedule now db) = [0, 1, 2, 3, 4]"
    unfolding h week_days by (simp only: list.map w)
qed

text \<open>
  C6, as amended. The grid covers the Monday to Friday of the current local week. It
  has one row for every student, in the order of the student names. A cell reports a
  booking exactly when some scheduled or active booking of the student has
  \<open>start \<le> window end\<close> and \<open>end \<ge> window start\<close> for the day's working window
  (09:00-17:00 local): the booking it reports is one of these with the least start, and a
  cell without such a booking reports none. With no bookings at all every cell reports
  none. The handler is a function of the store and changes nothing.
\<close>

theorem get_week_schedule_grid:
  fixes now :: int and db :: lab_db
  defines "ws \<equiv> get_week_schedule now db"
      and "M \<equiv> date_of (get_monday (get_current_time now))"
  shows "((M + 3) mod 7 = 0 \<and> M \<le> date_of (get_current_time now)
           \<and> date_of (get_current_time now) < M + 7)
       \<and> (week_start ws = M \<and> week_end ws = M + 4 \<and> ws_days ws = [0, 1, 2, 3, 4])
       \<and> (map (\<lambda>r. (row_student_id r, row_student_name r)) (ws_rows ws) =
             map (\<lambda>s. (s_id s, s_name s)) (sort_key s_name (students db))
          \<and> sorted (map row_student_name (ws_rows ws))
          \<and> mset (map row_student_id (ws_rows ws)) = mset (map s_id (students db)))
       \<and> (\<forall>r\<in>set (ws_rows ws).
             map dc_date (row_days r) = [M, M + 1, M + 2, M + 3, M + 4]
           \<and> (\<forall>c\<in>set (row_days r).
                 if \<exists>b\<in>set (bookings db). on_day (row_student_id r)
                        (dc_date c * DAY + 9 * HOUR - ADDIS_ABABA_TZ)
                        (dc_date c * DAY + 17 * HOUR - ADDIS_ABABA_TZ) b
                 then \<exists>b\<in>set (bookings db). on_day (row_student_id r)
                        (dc_date c * DAY + 9 * HOUR - ADDIS_ABABA_TZ)
                        (dc_date c * DAY + 17 * HOUR - ADDIS_ABABA_TZ) b
                      \<and> has_booking c = True \<and> booking_id c = Some (b_id b)
                      \<and> computer_id c = Some (b_computer_id b)
                      \<and> (\<forall>b'\<in>set (bookings db). on_day (row_student_id r)
                            (dc_date c * DAY + 9 * HOUR - ADDIS_ABABA_TZ)
                            (dc_date c * DAY + 17 * HOUR - ADDIS_ABABA_TZ) b'
                          \<longrightarrow> b_start_time b \<le> b_start_time b')
                 else has_booking c = False \<and> booking_id c = None \<and> computer_id c = None))
       \<and> (bookings db = [] \<longrightarrow>
            (\<forall>r\<in>set (ws_rows ws). \<forall>c\<in>set (row_days r).
               has_booking c = False \<and> booking_id c = None \<and> computer_id c = None))"
proof -
  let ?cell = "\<lambda>st i. schedule_cell db st (Aware ((M + i) * DAY) ADDIS_ABABA_TZ)"
  have rows: "ws_rows ws =
     map (\<lambda>st. \<lparr>row_student_id = s_id st, row_student_name = s_name st,
                 row_days = map (?cell st) [0, 1, 2, 3, 4]\<rparr>) (sort_key s_name (students db))"
    unfolding ws_def M_def by (rule week_rows)
  have A: "(M + 3) mod 7 = 0 \<and> M \<le> date_of (get_current_time now)
           \<and> date_of (get_current_time now) < M + 7"
    unfolding M_def using monday_of_week [of now] by simp
  have B: "week_start ws = M \<and> week_end ws = M + 4 \<and> ws_days ws = [0, 1, 2, 3, 4]"
    unfolding ws_def M_def using week_header [of now db] by simp
  have C1: "map (\<lambda>r. (row_student_id r, row_student_name r)) (ws_rows ws) =
             map (\<lambda>s. (s_id s, s_name s)) (sort_key s_name (students db))"
    unfolding rows by simp
  have C2: "sorted (map row_student_name (ws_rows ws))"
    unfolding rows by (simp add: comp_def sorted_sort_key)
  have "mset (map row_student_id (ws_rows ws)) = mset (map s_id (sort_key s_name (students db)))"
    unfolding rows by (simp add: comp_def)
  then have C3: "mset (map row_student_id (ws_rows ws)) = mset (map s_id (students db))"
    by simp
  have cellp: "if \<exists>b\<in>set (bookings db). on_day (s_id st)
                        (dc_date c * DAY + 9 * HOUR - ADDIS_ABABA_TZ)
                        (dc_date c * DAY + 17 * HOUR - ADDIS_ABABA_TZ) b
                 then \<exists>b\<in>set (bookings db). on_day (s_id st)
                        (dc_date c * DAY + 9 * HOUR - ADDIS_ABABA_TZ)
                        (dc_date c * DAY + 17 * HOUR - ADDIS_ABABA_TZ) b
                      \<and> has_booking c = True \<and> booking_id c = Some (b_id b)
                      \<and> computer_id c = Some (b_computer_id b)
                      \<and> (\<forall>b'\<in>set (bookings db). on_day (s_id st)
                            (dc_date c * DAY + 9 * HOUR - ADDIS_ABABA_TZ)
                            (dc_date c * DAY + 17 * HOUR - ADDIS_ABABA_TZ) b'
                          \<longrightarrow> b_start_time b \<le> b_start_time b')
                 else has_booking c = False \<and> booking_id c = None \<and> computer_id c = None"
    if c: "c = ?cell st i" for c st i
  proof -
    have d: "dc_date c = M + i" unfolding c by (rule schedule_cell_day(1))
    show ?thesis
    proof (cases "\<exists>b\<in>set (bookings db). on_day (s_id st)
                        ((M + i) * DAY + 6 * HOUR) ((M + i) * DAY + 14 * HOUR) b")
      case True
      from schedule_cell_day(3) [OF True] show ?thesis
        unfolding d local_window c [symmetric] using True by simp
    next
      case False
      then have "\<forall>b\<in>set (bookings db). \<not> on_day (s_id st)
                        ((M + i) * DAY + 6 * HOUR) ((M + i) * DAY + 14 * HOUR) b"
        by simp
      from schedule_cell_day(2) [OF this] show ?thesis
        unfolding d local_window c [symmetric] using False by simp
    qed
  qed
  have D: "\<forall>r\<in>set (ws_rows ws).
             map dc_date (row_days r) = [M, M + 1, M + 2, M + 3, M + 4]
           \<and> (\<forall>c\<in>set (row_days r).
                 if \<exists>b\<in>set (bookings db). on_day (row_student_id r)
                        (dc_date c * DAY + 9 * HOUR - ADDIS_ABABA_TZ)
                        (dc_date c * DAY + 17 * HOUR - ADDIS_ABABA_TZ) b
                 then \<exists>b\<in>set (bookings db). on_day (row_student_id r)
                        (dc_date c * DAY + 9 * HOUR - ADDIS_ABABA_TZ)
                        (dc_date c * DAY + 17 * HOUR - ADDIS_ABABA_TZ) b
                      \<and> has_booking c = True \<and> booking_id c = Some (b_id b)
                      \<and> computer_id c = Some (b_computer_id b)
                      \<and> (\<forall>b'\<in>set (bookings db). on_day (row_student_id r)
                            (dc_date c * DAY + 9 * HOUR - ADDIS_ABABA_TZ)
                            (dc_date c * DAY + 17 * HOUR - ADDIS_ABABA_TZ) b'
                          \<longrightarrow> b_start_time b \<le> b_start_time b')
                 else has_booking c = False \<and> booking_id c = None \<and> computer_id c = None)"
  proof (intro ballI conjI)
    fix r assume "r \<in> set (ws_rows ws)"
    then obtain st where r: "r = \<lparr>row_student_id = s_id st, row_student_name = s_name st,
                 row_days = map (?cell st) [0, 1, 2, 3, 4]\<rparr>"
      unfolding rows by auto
    have dd: "dc_date (?cell st i) = M + i" for i
      by (rule schedule_cell_day(1))
    show "map dc_date (row_days r) = [M, M + 1, M + 2, M + 3, M + 4]"
      unfolding r by (simp add: dd schedule_cell_day(1))
    fix c assume "c \<in> set (row_days r)"
    then have "c \<in> ?cell st ` set [0, 1, 2, 3, 4]"
      unfolding r by (simp only: schedule_row.select_convs set_map)
    then obtain i where ci: "c = ?cell st i"
      by blast
    from cellp [OF ci] show "if \<exists>b\<in>set (bookings db). on_day (row_student_id r)
                        (dc_date c * DAY + 9 * HOUR - ADDIS_ABABA_TZ)
                        (dc_date c * DAY + 17 * HOUR - ADDIS_ABABA_TZ) b
                 then \<exists>b\<in>set (bookings db). on_day (row_student_id r)
                        (dc_date c * DAY + 9 * HOUR - ADDIS_ABABA_TZ)
                        (dc_date c * DAY + 17 * HOUR - ADDIS_ABABA_TZ) b
                      \<and> has_booking c = True \<and> booking_id c = Some (b_id b)
                      \<and> computer_id c = Some (b_computer_id b)
                      \<and> (\<forall>b'\<in>set (bookings db). on_day (row_student_id r)
                            (dc_date c * DAY + 9 * HOUR - ADDIS_ABABA_TZ)
                            (dc_date c * DAY + 17 * HOUR - ADDIS_ABABA_TZ) b'
                          \<longrightarrow> b_start_time b \<le> b_start_time b')
                 else has_booking c = False \<and> booking_id c = None \<and> computer_id c = None"
      unfolding r schedule_row.select_convs .
  qed
  have E: "bookings db = [] \<longrightarrow>
            (\<forall>r\<in>set (ws_rows ws). \<forall>c\<in>set (row_days r).
               has_booking c = False \<and> booking_id c = None \<and> computer_id c = None)"
  proof (intro impI ballI)
    fix r c
    assume e: "bookings db = []" and "r \<in> set (ws_rows ws)" and "c \<in> set (row_days r)"
    with D have "if \<exists>b\<in>set (bookings db). on_day (row_student_id r)
                        (dc_date c * DAY + 9 * HOUR - ADDIS_ABABA_TZ)
                        (dc_date c * DAY + 17 * HOUR - ADDIS_ABABA_TZ) b
                 then \<exists>b\<in>set (bookings db). on_day (row_student_id r)
                        (dc_date c * DAY + 9 * HOUR - ADDIS_ABABA_TZ)
                        (dc_date c * DAY + 17 * HOUR - ADDIS_ABABA_TZ) b
                      \<and> has_booking c = True \<and> booking_id c = Some (b_id b)
                      \<and> computer_id c = Some (b_computer_id b)
                      \<and> (\<forall>b'\<in>set (bookings db). on_day (row_student_id r)
                            (dc_date c * DAY + 9 * HOUR - ADDIS_ABABA_TZ)
                            (dc_date c * DAY + 17 * HOUR - ADDIS_ABABA_TZ) b'
                          \<longrightarrow> b_start_time b \<le> b_start_time b')
                 else has_booking c = False \<and> booking_id c = None \<and> computer_id c = None"
      by blast
    then show "has_booking c = False \<and> booking_id c = None \<and> computer_id c = None"
      unfolding e by simp
  qed
  show ?thesis
    by (rule conjI [OF A conjI [OF B conjI [OF conjI [OF C1 conjI [OF C2 C3]] conjI [OF D E]]]])
qed

lemma demo_monday: "date_of (get_monday (get_current_time demo_now)) = 19786"
  by (simp add: get_monday_def get_current_time_def Let_def weekday_def date_of_def
        demo_now_def ADDIS_ABABA_TZ_def DAY_def HOUR_def)

lemma demo_week_flags:
  assumes "students db = [demo_student]" and "bookings db = [b]"
      and "b_student_id b = 5" and "b_status b = ''scheduled''"
  shows "map (map has_booking \<circ> row_days) (ws_rows (get_week_schedule demo_now db)) =
           [map (\<lambda>i. b_start_time b \<le> (19786 + i) * DAY + 14 * HOUR
                     \<and> (19786 + i) * DAY + 6 * HOUR \<le> b_end_time b) [0, 1, 2, 3, 4]]"
proof -
  have cell: "has_booking (schedule_cell db demo_student (Aware (n * DAY) ADDIS_ABABA_TZ)) =
                (b_start_time b \<le> n * DAY + 14 * HOUR \<and> n * DAY + 6 * HOUR \<le> b_end_time b)"
    for n
    using assms
    by (simp add: schedule_cell_def Let_def day_window first_by_start_def on_day_iff
          demo_student_def)
  show ?thesis
    unfolding week_rows demo_monday using assms(1) by (simp add: cell)
qed

theorem get_week_schedule_grid_witness:
  "week_start (get_week_schedule demo_now demo_db_tuesday) = 19786
   \<and> week_end (get_week_schedule demo_now demo_db_tuesday) = 19790
   \<and> map row_student_id (ws_rows (get_week_schedule demo_now demo_db_tuesday)) = [5]
   \<and> map (map has_booking \<circ> row_days) (ws_rows (get_week_schedule demo_now demo_db_tuesday))
        = [[False, True, False, False, False]]
   \<and> map (map has_booking \<circ> row_days) (ws_rows (get_week_schedule demo_now demo_db))
        = [[False, False, False, False, False]]"
proof -
  note T = get_week_schedule_grid [of demo_now demo_db_tuesday, unfolded demo_monday]
  from T have hdr: "week_start (get_week_schedule demo_now demo_db_tuesday) = 19786"
      "week_end (get_week_schedule demo_now demo_db_tuesday) = 19786 + 4"
    by blast+
  from T have "map (\<lambda>r. (row_student_id r, row_student_name r))
                 (ws_rows (get_week_schedule demo_now demo_db_tuesday)) =
               map (\<lambda>s. (s_id s, s_name s)) (sort_key s_name (students demo_db_tuesday))"
    by blast
  then have "map fst (map (\<lambda>r. (row_student_id r, row_student_name r))
                 (ws_rows (get_week_schedule demo_now demo_db_tuesday))) = [5]"
    by (simp add: demo_db_tuesday_def demo_db_def demo_student_def)
  then have ids: "map row_student_id (ws_rows (get_week_schedule demo_now demo_db_tuesday)) = [5]"
    by (simp add: comp_def)
  have a: "students demo_db_tuesday = [demo_student]" "bookings demo_db_tuesday = [demo_tuesday]"
      "b_student_id demo_tuesday = 5" "b_status demo_tuesday = ''scheduled''"
    by (simp_all add: demo_db_tuesday_def demo_db_def demo_tuesday_def)
  have tue: "map (map has_booking \<circ> row_days)
               (ws_rows (get_week_schedule demo_now demo_db_tuesday))
        = [[False, True, False, False, False]]"
    unfolding demo_week_flags [OF a]
    by (simp add: demo_tuesday_def DAY_def HOUR_def)
  from get_week_schedule_grid [of demo_now demo_db]
  have "bookings demo_db = [] \<longrightarrow>
            (\<forall>r\<in>set (ws_rows (get_week_schedule demo_now demo_db)). \<forall>c\<in>set (row_days r).
               has_booking c = False \<and> booking_id c = None \<and> computer_id c = None)"
    by blast
  then have none: "\<forall>r\<in>set (ws_rows (get_week_schedule demo_now demo_db)).
               \<forall>c\<in>set (row_days r). has_booking c = False"
    by (simp add: demo_db_def)
  have shape: "map (length \<circ> row_days) (ws_rows (get_week_schedule demo_now demo_db)) = [5]"
    unfolding week_rows by (simp add: demo_db_def)
  have empty: "map (map has_booking \<circ> row_days) (ws_rows (get_week_schedule demo_now demo_db))
        = [[False, False, False, False, False]]"
  proof -
    obtain r where r: "ws_rows (get_week_schedule demo_now demo_db) = [r]"
      using shape by (cases "ws_rows (get_week_schedule demo_now demo_db)") auto
    with shape have "length (row_days r) = 5" by simp
    then obtain a b c d e where cs: "row_days r = [a, b, c, d, e]"
      by (auto simp: length_Suc_conv eval_nat_numeral)
    with none r show ?thesis by simp
  qed
  show ?thesis
    using hdr ids tue empty by simp
qed

text \<open>
  A booking from 17:00 to 18:00 on Monday shares no instant with Monday's half-open
  working window 09:00-17:00, yet Monday's cell reports it.
\<close>

theorem get_week_schedule_touching_counterexample:
  "bookings demo_db_late = [demo_late]
   \<and> \<not> (b_start_time demo_late < 19786 * DAY + 17 * HOUR - ADDIS_ABABA_TZ
        \<and> b_end_time demo_late > 19786 * DAY + 9 * HOUR - ADDIS_ABABA_TZ)
   \<and> map (map has_booking \<circ> row_days) (ws_rows (get_week_schedule demo_now demo_db_late))
        = [[True, False, False, False, False]]"
proof -
  have a: "students demo_db_late = [demo_student]" "bookings demo_db_late = [demo_late]"
      "b_student_id demo_late = 5" "b_status demo_late = ''scheduled''"
    by (simp_all add: demo_db_late_def demo_db_def demo_late_def)
  have apart: "\<not> (b_start_time demo_late < 19786 * DAY + 17 * HOUR - ADDIS_ABABA_TZ
        \<and> b_end_time demo_late > 19786 * DAY + 9 * HOUR - ADDIS_ABABA_TZ)"
    by (simp add: demo_late_def ADDIS_ABABA_TZ_def DAY_def HOUR_def)
  have cells: "map (map has_booking \<circ> row_days)
                 (ws_rows (get_week_schedule demo_now demo_db_late))
        = [[True, False, False, False, False]]"
    unfolding demo_week_flags [OF a]
    by (simp add: demo_late_def DAY_def HOUR_def)
  show ?thesis
    using a(2) apart cells by simp
qed

subsection \<open>Boundary instants\<close>

text \<open>
  C5, as amended. The two computer-level conflict checks (self-service booking and the
  availability check of the day toggle) are half-open: a booking that ends at the start
  of the requested range, or starts at its end, is no conflict, and the toggle adds its
  booking next to such bookings. The two per-student lookups (the toggle's search for
  an existing booking and the cell lookup of the weekly grid) include both boundary
  instants: a scheduled or active booking of the student that ends exactly when the
  day's working window opens, or starts exactly when it closes, is found, so the
  toggle removes it and the grid reports it.
\<close>

theorem overlap_boundaries:
  assumes parse: "parse_date (tp_date p) = Some d"
  shows "(\<forall>b cid s e. b_end_time b = s \<or> b_start_time b = e \<longrightarrow> \<not> conflicts cid s e b)
       \<and> (\<forall>cid. tp_computer_id p = Some cid \<and> cid \<noteq> 0
              \<and> (\<forall>b\<in>set (bookings db).
                    \<not> on_day (tp_student_id p) (d * DAY + 9 * HOUR - ADDIS_ABABA_TZ)
                        (d * DAY + 17 * HOUR - ADDIS_ABABA_TZ) b)
              \<and> (\<forall>b\<in>set (bookings db). b_computer_id b = cid \<longrightarrow>
                    b_end_time b \<le> d * DAY + 9 * HOUR - ADDIS_ABABA_TZ
                    \<or> d * DAY + 17 * HOUR - ADDIS_ABABA_TZ \<le> b_start_time b)
            \<longrightarrow> (\<exists>i. fst (toggle_day_booking parse_date now p db) = Inr (Added i)))
       \<and> ((\<exists>b\<in>set (bookings db). b_student_id b = tp_student_id p
               \<and> (b_status b = ''scheduled'' \<or> b_status b = ''active'')
               \<and> b_start_time b \<le> b_end_time b
               \<and> (b_end_time b = d * DAY + 9 * HOUR - ADDIS_ABABA_TZ
                  \<or> b_start_time b = d * DAY + 17 * HOUR - ADDIS_ABABA_TZ))
            \<longrightarrow> fst (toggle_day_booking parse_date now p db) = Inr Removed)
       \<and> (\<forall>st::student. (\<exists>b\<in>set (bookings db). b_student_id b = s_id st
               \<and> (b_status b = ''scheduled'' \<or> b_status b = ''active'')
               \<and> b_start_time b \<le> b_end_time b
               \<and> (b_end_time b = d * DAY + 9 * HOUR - ADDIS_ABABA_TZ
                  \<or> b_start_time b = d * DAY + 17 * HOUR - ADDIS_ABABA_TZ))
            \<longrightarrow> has_booking (schedule_cell db st (Aware (d * DAY) ADDIS_ABABA_TZ)) = True)"
proof -
  let ?ws = "d * DAY + 6 * HOUR" and ?we = "d * DAY + 14 * HOUR"
  have P1: "\<forall>b cid s e. b_end_time b = s \<or> b_start_time b = e \<longrightarrow> \<not> conflicts cid s e b"
    by (auto simp: conflicts_def)
  have touch: "on_day sid ?ws ?we b"
    if "b_student_id b = sid" "b_status b = ''scheduled'' \<or> b_status b = ''active''"
       "b_start_time b \<le> b_end_time b" "b_end_time b = ?ws \<or> b_start_time b = ?we"
    for sid b
    using that window_order [of d] by (auto simp: on_day_iff)
  have P2: "\<forall>cid. tp_computer_id p = Some cid \<and> cid \<noteq> 0
              \<and> (\<forall>b\<in>set (bookings db). \<not> on_day (tp_student_id p) ?ws ?we b)
              \<and> (\<forall>b\<in>set (bookings db). b_computer_id b = cid \<longrightarrow>
                    b_end_time b \<le> ?ws \<or> ?we \<le> b_start_time b)
            \<longrightarrow> (\<exists>i. fst (toggle_day_booking parse_date now p db) = Inr (Added i))"
  proof (intro allI impI)
    fix cid
    assume h: "tp_computer_id p = Some cid \<and> cid \<noteq> 0
              \<and> (\<forall>b\<in>set (bookings db). \<not> on_day (tp_student_id p) ?ws ?we b)
              \<and> (\<forall>b\<in>set (bookings db). b_computer_id b = cid \<longrightarrow>
                    b_end_time b \<le> ?ws \<or> ?we \<le> b_start_time b)"
    then have look: "find (on_day (tp_student_id p) ?ws ?we) (bookings db) = None"
      by (simp add: find_None_iff_ball)
    from h have avail: "\<forall>b\<in>set (bookings db). \<not> conflicts cid ?ws ?we b"
      by (fastforce simp: conflicts_def)
    from h have comp: "tp_computer_id p = Some cid" "cid \<noteq> 0" by simp_all
    show "\<exists>i. fst (toggle_day_booking parse_date now p db) = Inr (Added i)"
      unfolding toggle_adds [where parse_date = parse_date and p = p and d = d,
                  OF parse look comp avail]
      by simp
  qed
  have P3: "(\<exists>b\<in>set (bookings db). b_student_id b = tp_student_id p
               \<and> (b_status b = ''scheduled'' \<or> b_status b = ''active'')
               \<and> b_start_time b \<le> b_end_time b
               \<and> (b_end_time b = ?ws \<or> b_start_time b = ?we))
            \<longrightarrow> fst (toggle_day_booking parse_date now p db) = Inr Removed"
  proof
    assume "\<exists>b\<in>set (bookings db). b_student_id b = tp_student_id p
               \<and> (b_status b = ''scheduled'' \<or> b_status b = ''active'')
               \<and> b_start_time b \<le> b_end_time b
               \<and> (b_end_time b = ?ws \<or> b_start_time b = ?we)"
    then obtain b where "b \<in> set (bookings db)" "on_day (tp_student_id p) ?ws ?we b"
      using touch by blast
    then have "find (on_day (tp_student_id p) ?ws ?we) (bookings db) \<noteq> None"
      by (auto simp: find_None_iff_ball)
    then obtain ex where ex: "find (on_day (tp_student_id p) ?ws ?we) (bookings db) = Some ex"
      by blast
    show "fst (toggle_day_booking parse_date now p db) = Inr Removed"
      unfolding toggle_removes [where parse_date = parse_date and p = p and d = d,
                  OF parse ex]
      by simp
  qed
  have P4: "\<forall>st::student. (\<exists>b\<in>set (bookings db). b_student_id b = s_id st
               \<and> (b_status b = ''scheduled'' \<or> b_status b = ''active'')
               \<and> b_start_time b \<le> b_end_time b
               \<and> (b_end_time b = ?ws \<or> b_start_time b = ?we))
            \<longrightarrow> has_booking (schedule_cell db st (Aware (d * DAY) ADDIS_ABABA_TZ)) = True"
  proof (intro allI impI)
    fix st :: student
    assume "\<exists>b\<in>set (bookings db). b_student_id b = s_id st
               \<and> (b_status b = ''scheduled'' \<or> b_status b = ''active'')
               \<and> b_start_time b \<le> b_end_time b
               \<and> (b_end_time b = ?ws \<or> b_start_time b = ?we)"
    then have "\<exists>b\<in>set (bookings db). on_day (s_id st) ?ws ?we b"
      using touch by blast
    from schedule_cell_day(3) [OF this]
    show "has_booking (schedule_cell db st (Aware (d * DAY) ADDIS_ABABA_TZ)) = True"
      by blast
  qed
  show ?thesis
    unfolding local_window
    by (rule conjI [OF P1 conjI [OF P2 conjI [OF P3 P4]]])
qed

theorem overlap_boundaries_witness:
  "demo_parse_date (tp_date tg_pc2) = Some 19786
   \<and> bookings demo_db_early = [demo_early]
   \<and> b_end_time demo_early = 19786 * DAY + 9 * HOUR - ADDIS_ABABA_TZ
   \<and> \<not> conflicts 1 (19786 * DAY + 9 * HOUR - ADDIS_ABABA_TZ)
          (19786 * DAY + 17 * HOUR - ADDIS_ABABA_TZ) demo_early
   \<and> fst (toggle_day_booking demo_parse_date demo_now tg_pc2 demo_db_early) = Inr Removed
   \<and> has_booking (schedule_cell demo_db_early demo_student
                     (Aware (19786 * DAY) ADDIS_ABABA_TZ)) = True"
proof -
  have parse: "demo_parse_date (tp_date tg_pc2) = Some 19786"
    by (simp add: demo_parse_date_def tg_pc2_def)
  have bs: "bookings demo_db_early = [demo_early]"
    by (simp add: demo_db_early_def)
  have ends: "b_end_time demo_early = 19786 * DAY + 9 * HOUR - ADDIS_ABABA_TZ"
    by (simp add: demo_early_def ADDIS_ABABA_TZ_def)
  have mine: "\<exists>b\<in>set (bookings demo_db_early). b_student_id b = tp_student_id tg_pc2
               \<and> (b_status b = ''scheduled'' \<or> b_status b = ''active'')
               \<and> b_start_time b \<le> b_end_time b
               \<and> (b_end_time b = 19786 * DAY + 9 * HOUR - ADDIS_ABABA_TZ
                  \<or> b_start_time b = 19786 * DAY + 17 * HOUR - ADDIS_ABABA_TZ)"
    unfolding bs using ends by (simp add: demo_early_def tg_pc2_def HOUR_def)
  have mine': "\<exists>b\<in>set (bookings demo_db_early). b_student_id b = s_id demo_student
               \<and> (b_status b = ''scheduled'' \<or> b_status b = ''active'')
               \<and> b_start_time b \<le> b_end_time b
               \<and> (b_end_time b = 19786 * DAY + 9 * HOUR - ADDIS_ABABA_TZ
                  \<or> b_start_time b = 19786 * DAY + 17 * HOUR - ADDIS_ABABA_TZ)"
    using mine by (simp add: demo_student_def tg_pc2_def)
  note T = overlap_boundaries [where parse_date = demo_parse_date and p = tg_pc2
             and d = 19786 and db = demo_db_early and now = demo_now, OF parse]
  from T ends have c: "\<not> conflicts 1 (19786 * DAY + 9 * HOUR - ADDIS_ABABA_TZ)
          (19786 * DAY + 17 * HOUR - ADDIS_ABABA_TZ) demo_early"
    by blast
  from T [THEN conjunct2, THEN conjunct2, THEN conjunct1] mine
  have t: "fst (toggle_day_booking demo_parse_date demo_now tg_pc2 demo_db_early) = Inr Removed"
    by (rule mp)
  from T [THEN conjunct2, THEN conjunct2, THEN conjunct2, THEN spec, of demo_student] mine'
  have g: "has_booking (schedule_cell demo_db_early demo_student
                     (Aware (19786 * DAY) ADDIS_ABABA_TZ)) = True"
    by (rule mp)
  show ?thesis
    by (intro conjI) (fact parse bs ends c t g)+
qed

text \<open>
  A booking of the student that starts exactly when Monday's window closes (17:00) is
  treated as a booking on that day by both lookups: the toggle removes it and the grid
  reports it.
\<close>

theorem overlap_boundaries_counterexample:
  "bookings demo_db_late = [demo_late]
   \<and> b_student_id demo_late = 5
   \<and> b_start_time demo_late = 19786 * DAY + 17 * HOUR - ADDIS_ABABA_TZ
   \<and> toggle_day_booking demo_parse_date demo_now tg_pc2 demo_db_late = (Inr Removed, demo_db)
   \<and> has_booking (schedule_cell demo_db_late demo_student
                     (Aware (19786 * DAY) ADDIS_ABABA_TZ)) = True"
proof -
  have parse: "demo_parse_date (tp_date tg_pc2) = Some 19786"
    by (simp add: demo_parse_date_def tg_pc2_def)
  have bs: "bookings demo_db_late = [demo_late]"
    by (simp add: demo_db_late_def)
  have f: "b_student_id demo_late = 5"
      "b_start_time demo_late = 19786 * DAY + 17 * HOUR - ADDIS_ABABA_TZ"
    by (simp_all add: demo_late_def ADDIS_ABABA_TZ_def)
  have hit: "on_day 5 (19786 * DAY + 6 * HOUR) (19786 * DAY + 14 * HOUR) demo_late"
    by (simp add: on_day_iff demo_late_def HOUR_def)
  have look: "find (on_day (tp_student_id tg_pc2) (19786 * DAY + 6 * HOUR)
                (19786 * DAY + 14 * HOUR)) (bookings demo_db_late) = Some demo_late"
    using hit by (simp add: bs tg_pc2_def)
  have t: "toggle_day_booking demo_parse_date demo_now tg_pc2 demo_db_late
             = (Inr Removed, demo_db)"
    unfolding toggle_removes [where parse_date = demo_parse_date and p = tg_pc2 and d = 19786,
                OF parse look]
    by (simp add: demo_db_late_def demo_db_def)
  have "\<exists>b\<in>set (bookings demo_db_late).
          on_day (s_id demo_student) (19786 * DAY + 6 * HOUR) (19786 * DAY + 14 * HOUR) b"
    using hit by (simp add: bs demo_student_def)
  from schedule_cell_day(3) [OF this]
  have g: "has_booking (schedule_cell demo_db_late demo_student
                     (Aware (19786 * DAY) ADDIS_ABABA_TZ)) = True"
    by blast
  show ?thesis
    by (intro conjI) (fact bs f t g)+
qed

subsection \<open>Student creation\<close>

lemma ascii_lower_blank: "(ascii_lower c = CHR '' '') = (c = CHR '' '')"
  by (auto simp: ascii_lower_def split: if_splits)

lemma ascii_lower_idem: "ascii_lower (ascii_lower c) = ascii_lower c"
  by (auto simp: ascii_lower_def split: if_splits)

lemma blank_isspace: "py_isspace (CHR '' '')"
  by (simp add: py_isspace_def)

lemma trim_ends_id:
  assumes "t \<noteq> [] \<Longrightarrow> \<not> Q (hd t)" and "t \<noteq> [] \<Longrightarrow> \<not> Q (last t)"
  shows "rev (dropWhile Q (rev (dropWhile Q t))) = t"
proof (cases t)
  case Nil
  then show ?thesis by simp
next
  case (Cons a u)
  with assms(1) have 1: "dropWhile Q t = t" by simp
  from Cons have ne: "t \<noteq> []" by simp
  have "\<not> Q (hd (rev t))"
    using assms(2) [OF ne] hd_rev [of t] ne by metis
  moreover from ne have "rev t \<noteq> []" by simp
  ultimately have "dropWhile Q (rev t) = rev t"
    by (cases "rev t") auto
  with 1 show ?thesis by simp
qed

lemma strip_ends:
  assumes "py_strip x \<noteq> []"
  shows "\<not> py_isspace (hd (py_strip x))" and "\<not> py_isspace (last (py_strip x))"
proof -
  let ?a = "dropWhile py_isspace x"
  let ?b = "dropWhile py_isspace (rev ?a)"
  have s: "py_strip x = rev ?b" by (simp add: py_strip_def)
  with assms have b: "?b \<noteq> []" by simp
  then have hb: "\<not> py_isspace (hd ?b)" by (rule hd_dropWhile)
  from b have a: "?a \<noteq> []"
    by (metis dropWhile.simps(1) rev.simps(1))
  then have ha: "\<not> py_isspace (hd ?a)" by (rule hd_dropWhile)
  show "\<not> py_isspace (last (py_strip x))"
    unfolding s using hb b by (simp add: last_rev)
  obtain pre where pre: "rev ?a = pre @ ?b"
    by (metis takeWhile_dropWhile_id)
  have "last (pre @ ?b) = last ?b" using b by (rule last_appendR)
  then have "last ?b = last (rev ?a)" unfolding pre [symmetric] by simp
  also have "\<dots> = hd ?a" using a by (simp add: last_rev)
  finally show "\<not> py_isspace (hd (py_strip x))"
    unfolding s using ha b by (simp add: hd_rev)
qed

text \<open>A normalised value is left alone by the normalisation inside the query.\<close>

lemma normal_form:
  "sql_lower (sql_trim (py_lower (py_strip x))) = py_lower (py_strip x)"
proof -
  let ?t = "py_lower (py_strip x)"
  have e: "(?t = []) = (py_strip x = [])" by (simp add: py_lower_def)
  have h: "?t \<noteq> [] \<Longrightarrow> \<not> hd ?t = CHR '' ''"
    using strip_ends(1) [of x] blank_isspace
    by (auto simp: py_lower_def hd_map ascii_lower_blank)
  have l: "?t \<noteq> [] \<Longrightarrow> \<not> last ?t = CHR '' ''"
    using strip_ends(2) [of x] blank_isspace
    by (auto simp: py_lower_def last_map ascii_lower_blank)
  have "sql_trim ?t = ?t"
    unfolding sql_trim_def using h l by (rule trim_ends_id)
  then show ?thesis
    by (simp add: sql_lower_def py_lower_def ascii_lower_idem)
qed

lemma create_student_admin_dup:
  assumes "find (is_dup (py_lower (py_strip (sc_student_id p)))
                   (py_lower (py_strip (sc_email p)))) (students db) = Some dup"
  shows "\<exists>detail. create_student_admin parse_date fromisoformat others p db =
           (Inl (HTTPException 409 detail), db)"
  using assms by (simp add: create_student_admin_def Let_def)

lemma create_student_admin_fresh:
  assumes "find (is_dup (py_lower (py_strip (sc_student_id p)))
                   (py_lower (py_strip (sc_email p)))) (students db) = None"
  shows "(list_ex (\<lambda>r. s_email r = py_lower (py_strip (sc_email p))
                       \<or> s_student_id r = py_lower (py_strip (sc_student_id p)))
            (students (others db)) \<longrightarrow>
          create_student_admin parse_date fromisoformat others p db =
            (Inl (HTTPException 409 ''Student ID or email already exists''), others db))
       \<and> (\<not> list_ex (\<lambda>r. s_email r = py_lower (py_strip (sc_email p))
                       \<or> s_student_id r = py_lower (py_strip (sc_student_id p)))
            (students (others db)) \<longrightarrow>
          (\<exists>row. create_student_admin parse_date fromisoformat others p db =
                   (Inr row, (others db)\<lparr>students := students (others db) @ [row]\<rparr>)
               \<and> s_student_id row = py_lower (py_strip (sc_student_id p))
               \<and> s_email row = py_lower (py_strip (sc_email p))
               \<and> s_name row = sc_name p
               \<and> s_id row \<notin> s_id ` set (students (others db))))"
  using assms next_id_fresh [of "map s_id (students (others db))"]
  by (simp add: create_student_admin_def insert_student_def Let_def)

text \<open>
  C7. A student that has been created is stored with \<open>student_id\<close> and \<open>email\<close> trimmed
  and in lower case. Every later creation whose trimmed, lower-cased \<open>student_id\<close> or
  \<open>email\<close> equals the stored one is refused with status 409 by the duplicate query, and
  the store is left as it is. When the duplicate query finds nothing but a concurrent
  request has committed a row with the same \<open>email\<close> or \<open>student_id\<close> before the insert,
  the constraint violation is caught and reported with status 409 as well. The handler
  raises no other error.
\<close>

theorem create_student_admin_conflict:
  assumes first: "create_student_admin parse_date fromisoformat others1 p1 db = (Inr row, db1)"
  shows "(s_student_id row = py_lower (py_strip (sc_student_id p1))
          \<and> s_email row = py_lower (py_strip (sc_email p1))
          \<and> students db1 = students (others1 db) @ [row])
       \<and> (\<forall>p2 others2.
             py_lower (py_strip (sc_student_id p2)) = py_lower (py_strip (sc_student_id p1))
             \<or> py_lower (py_strip (sc_email p2)) = py_lower (py_strip (sc_email p1)) \<longrightarrow>
             (\<exists>detail. create_student_admin parse_date fromisoformat others2 p2 db1 =
                         (Inl (HTTPException 409 detail), db1)))
       \<and> (\<forall>p others dbx.
             find (is_dup (py_lower (py_strip (sc_student_id p)))
                     (py_lower (py_strip (sc_email p)))) (students dbx) = None
             \<and> list_ex (\<lambda>r. s_email r = py_lower (py_strip (sc_email p))
                            \<or> s_student_id r = py_lower (py_strip (sc_student_id p)))
                  (students (others dbx)) \<longrightarrow>
             create_student_admin parse_date fromisoformat others p dbx =
               (Inl (HTTPException 409 ''Student ID or email already exists''), others dbx))
       \<and> (\<forall>p others dbx f dby.
             create_student_admin parse_date fromisoformat others p dbx = (Inl f, dby) \<longrightarrow>
             (\<exists>detail. f = HTTPException 409 detail))"
proof -
  let ?N = "\<lambda>x. py_lower (py_strip x)"
  have none1: "find (is_dup (?N (sc_student_id p1)) (?N (sc_email p1))) (students db) = None"
  proof (rule ccontr)
    assume "find (is_dup (?N (sc_student_id p1)) (?N (sc_email p1))) (students db) \<noteq> None"
    then obtain dup where
      "find (is_dup (?N (sc_student_id p1)) (?N (sc_email p1))) (students db) = Some dup"
      by blast
    from create_student_admin_dup [OF this, of parse_date fromisoformat others1] first
    show False by auto
  qed
  note F = create_student_admin_fresh [OF none1, of others1 parse_date fromisoformat]
  have noclash: "\<not> list_ex (\<lambda>r. s_email r = ?N (sc_email p1)
                       \<or> s_student_id r = ?N (sc_student_id p1)) (students (others1 db))"
  proof
    assume "list_ex (\<lambda>r. s_email r = ?N (sc_email p1)
                       \<or> s_student_id r = ?N (sc_student_id p1)) (students (others1 db))"
    with F first show False by simp
  qed
  from F noclash obtain row' where
    r': "create_student_admin parse_date fromisoformat others1 p1 db =
           (Inr row', (others1 db)\<lparr>students := students (others1 db) @ [row']\<rparr>)"
    and f': "s_student_id row' = ?N (sc_student_id p1)" "s_email row' = ?N (sc_email p1)"
    by blast
  from r' first have eq: "row' = row" "db1 = (others1 db)\<lparr>students := students (others1 db) @ [row]\<rparr>"
    by simp_all
  have P1: "s_student_id row = ?N (sc_student_id p1) \<and> s_email row = ?N (sc_email p1)
          \<and> students db1 = students (others1 db) @ [row]"
    using f' eq by simp
  have P2: "\<forall>p2 others2.
             ?N (sc_student_id p2) = ?N (sc_student_id p1)
             \<or> ?N (sc_email p2) = ?N (sc_email p1) \<longrightarrow>
             (\<exists>detail. create_student_admin parse_date fromisoformat others2 p2 db1 =
                         (Inl (HTTPException 409 detail), db1))"
  proof (intro allI impI)
    fix p2 :: StudentCreate and others2 :: "lab_db \<Rightarrow> lab_db"
    assume same: "?N (sc_student_id p2) = ?N (sc_student_id p1)
             \<or> ?N (sc_email p2) = ?N (sc_email p1)"
    have "is_dup (?N (sc_student_id p2)) (?N (sc_email p2)) row"
      using same P1 by (auto simp: is_dup_def normal_form)
    moreover have "row \<in> set (students db1)" using P1 by simp
    ultimately have "find (is_dup (?N (sc_student_id p2)) (?N (sc_email p2))) (students db1)
                       \<noteq> None"
      by (auto simp: find_None_iff_ball)
    then obtain dup where
      "find (is_dup (?N (sc_student_id p2)) (?N (sc_email p2))) (students db1) = Some dup"
      by blast
    then show "\<exists>detail. create_student_admin parse_date fromisoformat others2 p2 db1 =
                         (Inl (HTTPException 409 detail), db1)"
      by (rule create_student_admin_dup)
  qed
  have P3: "\<forall>p others dbx.
             find (is_dup (?N (sc_student_id p)) (?N (sc_email p))) (students dbx) = None
             \<and> list_ex (\<lambda>r. s_email r = ?N (sc_email p)
                            \<or> s_student_id r = ?N (sc_student_id p))
                  (students (others dbx)) \<longrightarrow>
             create_student_admin parse_date fromisoformat others p dbx =
               (Inl (HTTPException 409 ''Student ID or email already exists''), others dbx)"
    using create_student_admin_fresh by blast
  have P4: "\<forall>p others dbx f dby.
             create_student_admin parse_date fromisoformat others p dbx = (Inl f, dby) \<longrightarrow>
             (\<exists>detail. f = HTTPException 409 detail)"
  proof (intro allI impI)
    fix p :: StudentCreate and others :: "lab_db \<Rightarrow> lab_db" and dbx f dby
    assume run: "create_student_admin parse_date fromisoformat others p dbx = (Inl f, dby)"
    show "\<exists>detail. f = HTTPException 409 detail"
    proof (cases "find (is_dup (?N (sc_student_id p)) (?N (sc_email p))) (students dbx)")
      case (Some dup)
      from create_student_admin_dup [OF Some, of parse_date fromisoformat others] run
      show ?thesis by auto
    next
      case None
      note G = create_student_admin_fresh [OF None, of others parse_date fromisoformat]
      show ?thesis
      proof (cases "list_ex (\<lambda>r. s_email r = ?N (sc_email p)
                            \<or> s_student_id r = ?N (sc_student_id p)) (students (others dbx))")
        case True
        with G run show ?thesis by simp
      next
        case False
        with G run show ?thesis by auto
      qed
    qed
  qed
  show ?thesis
    by (rule conjI [OF P1 conjI [OF P2 conjI [OF P3 P4]]])
qed

lemma demo_normal:
  "py_lower (py_strip ''DuP123'') = ''dup123''"
  "py_lower (py_strip ''dup123 '') = ''dup123''"
  "py_lower (py_strip ''X@Y.com'') = ''x@y.com''"
  "py_lower (py_strip '' x@y.com'') = ''x@y.com''"
  "py_lower (py_strip ''new@z.org'') = ''new@z.org''"
  "py_lower (py_strip ''abc999'') = ''abc999''"
  by (simp_all add: py_lower_def py_strip_def py_isspace_def ascii_lower_def)

lemma demo_stored:
  "sql_lower (sql_trim ''stu005'') = ''stu005''"
  "sql_lower (sql_trim ''abebe@example.com'') = ''abebe@example.com''"
  by (simp_all add: sql_lower_def sql_trim_def ascii_lower_def)

theorem create_student_admin_conflict_witness:
  "fst (create_student_admin demo_parse_date demo_fromisoformat (\<lambda>d. d) sc_first demo_db)
     = Inr demo_created
   \<and> (\<exists>detail.
         create_student_admin demo_parse_date demo_fromisoformat (\<lambda>d. d) sc_second
           (snd (create_student_admin demo_parse_date demo_fromisoformat (\<lambda>d. d) sc_first
                   demo_db)) =
         (Inl (HTTPException 409 detail),
          snd (create_student_admin demo_parse_date demo_fromisoformat (\<lambda>d. d) sc_first
                 demo_db)))
   \<and> create_student_admin demo_parse_date demo_fromisoformat racing_writer sc_other demo_db =
       (Inl (HTTPException 409 ''Student ID or email already exists''), racing_writer demo_db)"
proof -
  let ?db1 = "snd (create_student_admin demo_parse_date demo_fromisoformat (\<lambda>d. d) sc_first
                     demo_db)"
  have nodup: "find (is_dup (py_lower (py_strip (sc_student_id sc_first)))
                 (py_lower (py_strip (sc_email sc_first)))) (students demo_db) = None"
    by (simp add: sc_first_def demo_normal demo_db_def demo_student_def is_dup_def demo_stored)
  have noclash: "\<not> list_ex (\<lambda>r. s_email r = py_lower (py_strip (sc_email sc_first))
                       \<or> s_student_id r = py_lower (py_strip (sc_student_id sc_first)))
            (students demo_db)"
    by (simp add: sc_first_def demo_normal demo_db_def demo_student_def)
  from create_student_admin_fresh [OF nodup, of "\<lambda>d. d" demo_parse_date demo_fromisoformat]
    noclash
  obtain row where run: "create_student_admin demo_parse_date demo_fromisoformat (\<lambda>d. d)
                           sc_first demo_db =
                   (Inr row, demo_db\<lparr>students := students demo_db @ [row]\<rparr>)"
    by blast
  have one: "fst (create_student_admin demo_parse_date demo_fromisoformat (\<lambda>d. d) sc_first
                    demo_db) = Inr demo_created"
    using nodup noclash
    by (simp add: create_student_admin_def insert_student_def Let_def parse_reg_at_def
          sc_first_def demo_normal demo_created_def next_id_def demo_db_def demo_student_def)
  from run have first: "create_student_admin demo_parse_date demo_fromisoformat (\<lambda>d. d)
                          sc_first demo_db = (Inr row, ?db1)"
    by simp
  note T = create_student_admin_conflict [OF first]
  have same: "py_lower (py_strip (sc_student_id sc_second))
                = py_lower (py_strip (sc_student_id sc_first))
             \<or> py_lower (py_strip (sc_email sc_second))
                = py_lower (py_strip (sc_email sc_first))"
    by (simp add: sc_first_def sc_second_def demo_normal)
  from T [THEN conjunct2, THEN conjunct1, rule_format,
          where ?p2.0 = sc_second and ?others2.0 = "\<lambda>d. d", OF same]
  have two: "\<exists>detail.
         create_student_admin demo_parse_date demo_fromisoformat (\<lambda>d. d) sc_second ?db1 =
         (Inl (HTTPException 409 detail), ?db1)"
    .
  have nodup3: "find (is_dup (py_lower (py_strip (sc_student_id sc_other)))
                 (py_lower (py_strip (sc_email sc_other)))) (students demo_db) = None"
    by (simp add: sc_other_def demo_normal demo_db_def demo_student_def is_dup_def demo_stored)
  have clash3: "list_ex (\<lambda>r. s_email r = py_lower (py_strip (sc_email sc_other))
                       \<or> s_student_id r = py_lower (py_strip (sc_student_id sc_other)))
            (students (racing_writer demo_db))"
    by (simp add: sc_other_def demo_normal racing_writer_def demo_created_def)
  from T [THEN conjunct2, THEN conjunct2, THEN conjunct1, rule_format,
          where p = sc_other and others = racing_writer and dbx = demo_db,
          OF conjI [OF nodup3 clash3]]
  have three: "create_student_admin demo_parse_date demo_fromisoformat racing_writer sc_other
                 demo_db =
       (Inl (HTTPException 409 ''Student ID or email already exists''), racing_writer demo_db)"
    .
  show ?thesis
    by (rule conjI [OF one conjI [OF two three]])
qed

end
